theory Spec2Isabelle
  imports Complex_Main "HOL-Library.Multiset"
begin

section \<open>Tabular parser: \<open>parseCSVLine\<close>\<close>

text \<open>
  A JavaScript string is modelled as a \<open>string\<close>, a list of characters, one character
  for each code unit; the text is taken to be ASCII. The loop
  \<^verbatim>\<open>for (let i = 0; i < line.length; i++) { const char = line[i]; ... }\<close>
  visits the characters from left to right, so it is a \<open>fold\<close> over the list.
  \<open>String.prototype.trim\<close> removes white space and line terminators at both ends;
  among the ASCII characters these are space, tab, line feed, vertical tab, form feed
  and carriage return.
\<close>

definition isSpace :: "char \<Rightarrow> bool" where
  "isSpace c \<longleftrightarrow> c \<in> {CHR 0x20, CHR 0x09, CHR 0x0A, CHR 0x0B, CHR 0x0C, CHR 0x0D}"

definition trim :: "string \<Rightarrow> string" where
  "trim s = rev (dropWhile isSpace (rev (dropWhile isSpace s)))"

text \<open>The three local variables of \<open>parseCSVLine\<close>; the array \<open>values\<close> is the field
  \<open>vals\<close>.\<close>

record csv_state =
  vals :: "string list"
  current :: string
  inQuotes :: bool

text \<open>One iteration of the loop body; \<open>CHR 0x22\<close> is the double quote.\<close>

definition csv_step :: "char \<Rightarrow> csv_state \<Rightarrow> csv_state" where
  "csv_step ch s =
     (if ch = CHR 0x22 then s\<lparr>inQuotes := \<not> inQuotes s\<rparr>
      else if ch = CHR '','' \<and> \<not> inQuotes s
        then s\<lparr>vals := vals s @ [trim (current s)], current := []\<rparr>
      else s\<lparr>current := current s @ [ch]\<rparr>)"

definition parseCSVLine :: "string \<Rightarrow> string list" where
  "parseCSVLine line =
     (let s = fold csv_step line \<lparr>vals = [], current = [], inQuotes = False\<rparr>
      in vals s @ [trim (current s)])"

section \<open>Numbers\<close>

text \<open>
  A JavaScript number is an IEEE-754 double. The finite values are idealised as reals
  (rounding, overflow and the sign of zero are not modelled); the three special values
  are kept, because a division by zero produces them instead of failing.
  \<open>js_div\<close> is the operator \<^verbatim>\<open>/\<close>. What a double computation yields only by rounding or
  by overflow (a tiny variance where the exact one is zero, a \<open>NaN\<close> from two infinities)
  the model does not show.
\<close>

datatype jsnum = Fin real | NaN | PosInf | NegInf

fun js_div :: "jsnum \<Rightarrow> jsnum \<Rightarrow> jsnum" where
  "js_div (Fin a) (Fin b) =
     (if b \<noteq> 0 then Fin (a / b) else if a = 0 then NaN else if 0 < a then PosInf else NegInf)"
| "js_div (Fin a) PosInf = Fin 0"
| "js_div (Fin a) NegInf = Fin 0"
| "js_div PosInf (Fin b) = (if 0 \<le> b then PosInf else NegInf)"
| "js_div NegInf (Fin b) = (if 0 \<le> b then NegInf else PosInf)"
| "js_div _ _ = NaN"

section \<open>Time series\<close>

text \<open>
  A parsed row is an object from column names to values. The date column
  \<open>month_date_yyyymm\<close> holds an integer (so \<open>parseInt\<close> of it is the identity); every
  other column is read through \<open>cells\<close>, which gives the number stored under a column
  name, or \<open>None\<close> when the row has no number there (the column is absent, or its
  text was empty, which \<open>parseCSV\<close> keeps as the empty string). A metric column that
  holds any other text is outside the model.
\<close>

record row =
  month_date_yyyymm :: int
  cells :: "string \<Rightarrow> real option"

text \<open>The fields of \<open>DataProcessor\<close> that the computations read.\<close>

record DataProcessor =
  nationalData :: "row list"
  stateData :: "string \<rightharpoonup> row list"
  metroData :: "string \<rightharpoonup> row list"

datatype error = TypeError

text \<open>Truthiness of a value that is a number or \<open>undefined\<close>: \<open>undefined\<close> and \<open>0\<close>
  are falsy.\<close>

definition truthy :: "real option \<Rightarrow> bool" where
  "truthy v = (case v of None \<Rightarrow> False | Some x \<Rightarrow> x \<noteq> 0)"

section \<open>Returns and beta engine\<close>

text \<open>A \<open>Set\<close> built from an array keeps the first occurrence of each element, in
  insertion order.\<close>

definition setOrder :: "'a list \<Rightarrow> 'a list" where
  "setOrder xs = rev (remdups (rev xs))"

definition getCommonDates :: "row list \<Rightarrow> row list \<Rightarrow> int list" where
  "getCommonDates stateData' nationalData' =
     (let stateDates = setOrder (map month_date_yyyymm stateData');
          nationalDates = setOrder (map month_date_yyyymm nationalData')
      in rev (sort (filter (\<lambda>date. date \<in> set nationalDates) stateDates)))"

definition getCommonDatesMetro :: "row list \<Rightarrow> row list \<Rightarrow> int list" where
  "getCommonDatesMetro metroData' nationalData' =
     (let metroDates = setOrder (map month_date_yyyymm metroData');
          nationalDates = setOrder (map month_date_yyyymm nationalData')
      in rev (sort (filter (\<lambda>date. date \<in> set nationalDates) metroDates)))"

text \<open>The lookup table of \<open>getReturns\<close>: a later row with the same date replaces an
  earlier one.\<close>

definition dataMap :: "row list \<Rightarrow> (int \<rightharpoonup> row)" where
  "dataMap timeSeries = fold (\<lambda>r m. m(month_date_yyyymm r \<mapsto> r)) timeSeries Map.empty"

text \<open>\<^verbatim>\<open>dataMap[date]?.[metric]\<close>\<close>

definition valueAt :: "(int \<rightharpoonup> row) \<Rightarrow> int \<Rightarrow> string \<Rightarrow> real option" where
  "valueAt m date metric = (case m date of None \<Rightarrow> None | Some r \<Rightarrow> cells r metric)"

text \<open>The body of the loop over \<open>i\<close>: the return of one pair of dates, pushed or not.\<close>

definition pairReturn :: "real option \<Rightarrow> real option \<Rightarrow> real list" where
  "pairReturn currentValue previousValue =
     (if truthy currentValue \<and> truthy previousValue \<and> previousValue \<noteq> Some 0
      then [(the currentValue - the previousValue) / the previousValue] else [])"

text \<open>The loop \<^verbatim>\<open>for (let i = 0; i < dates.length - 1; i++)\<close> reads \<open>dates[i]\<close> and
  \<open>dates[i + 1]\<close>: it runs over the adjacent pairs of the list.\<close>

fun returnsLoop :: "(int \<rightharpoonup> row) \<Rightarrow> string \<Rightarrow> int list \<Rightarrow> real list" where
  "returnsLoop m metric (currentDate # previousDate # rest) =
     pairReturn (valueAt m currentDate metric) (valueAt m previousDate metric)
       @ returnsLoop m metric (previousDate # rest)"
| "returnsLoop m metric [d] = []"
| "returnsLoop m metric [] = []"

definition getReturns :: "row list \<Rightarrow> string \<Rightarrow> int list \<Rightarrow> real list" where
  "getReturns timeSeries metric dates = returnsLoop (dataMap timeSeries) metric dates"

definition getMetroReturns :: "row list \<Rightarrow> string \<Rightarrow> int list \<Rightarrow> real list" where
  "getMetroReturns timeSeries metric dates = returnsLoop (dataMap timeSeries) metric dates"

text \<open>\<^verbatim>\<open>x.reduce((sum, val) => sum + val, 0)\<close>\<close>

definition reduceSum :: "real list \<Rightarrow> real" where
  "reduceSum x = fold (\<lambda>val sum. sum + val) x 0"

definition calculateCovariance :: "real list \<Rightarrow> real list \<Rightarrow> jsnum" where
  "calculateCovariance x y =
     (let n = length x in
      if n \<noteq> length y \<or> n = 0 then Fin 0
      else
        let meanX = reduceSum x / real n;
            meanY = reduceSum y / real n;
            covariance = fold (\<lambda>i c. c + (x ! i - meanX) * (y ! i - meanY)) [0..<n] 0
        in js_div (Fin covariance) (Fin (real n - 1)))"

definition calculateVariance :: "real list \<Rightarrow> jsnum" where
  "calculateVariance x =
     (let n = length x in
      if n = 0 then Fin 0
      else
        let mean = reduceSum x / real n;
            variance = fold (\<lambda>i v. v + (x ! i - mean) ^ 2) [0..<n] 0
        in js_div (Fin variance) (Fin (real n - 1)))"

text \<open>
  The result of \<open>calculateBeta\<close> is a number or \<open>null\<close>: \<open>None\<close> is \<open>null\<close>. A state that
  is not a key of \<open>stateData\<close> makes \<open>getReturns\<close> call \<open>forEach\<close> on \<open>undefined\<close>,
  which throws a \<open>TypeError\<close>.
\<close>

definition calculateBeta ::
  "DataProcessor \<Rightarrow> string \<Rightarrow> string \<Rightarrow> nat \<Rightarrow> int list \<Rightarrow> error + jsnum option" where
  "calculateBeta dp state metric months commonDates =
     (if length commonDates < months then Inr None
      else
        let relevantDates = take months commonDates in
        case stateData dp state of
          None \<Rightarrow> Inl TypeError
        | Some stateSeries \<Rightarrow>
            let stateReturns = getReturns stateSeries metric relevantDates;
                nationalReturns = getReturns (nationalData dp) metric relevantDates
            in if length stateReturns \<noteq> length nationalReturns \<or> length stateReturns < 2
               then Inr None
               else
                 let covariance = calculateCovariance stateReturns nationalReturns;
                     nationalVariance = calculateVariance nationalReturns
                 in if nationalVariance = Fin 0 then Inr None
                    else Inr (Some (js_div covariance nationalVariance)))"

definition calculateMetroBeta ::
  "DataProcessor \<Rightarrow> string \<Rightarrow> string \<Rightarrow> nat \<Rightarrow> int list \<Rightarrow> error + jsnum option" where
  "calculateMetroBeta dp metro metric months commonDates =
     (if length commonDates < months then Inr None
      else
        let relevantDates = take months commonDates in
        case metroData dp metro of
          None \<Rightarrow> Inl TypeError
        | Some metroSeries \<Rightarrow>
            let metroReturns = getMetroReturns metroSeries metric relevantDates;
                nationalReturns = getReturns (nationalData dp) metric relevantDates
            in if length metroReturns \<noteq> length nationalReturns \<or> length metroReturns < 2
               then Inr None
               else
                 let covariance = calculateCovariance metroReturns nationalReturns;
                     nationalVariance = calculateVariance nationalReturns
                 in if nationalVariance = Fin 0 then Inr None
                    else Inr (Some (js_div covariance nationalVariance)))"

text \<open>The object \<^verbatim>\<open>{beta_5y, beta_3y, beta_1y}\<close> stored under each metric, and the object
  that \<open>calculateStateBetas\<close> returns. \<open>latest_data\<close> is \<open>stateTimeSeries[0]\<close>, which is
  \<open>undefined\<close> (\<open>None\<close>) for an empty series.\<close>

record beta_windows =
  beta_5y :: "jsnum option"
  beta_3y :: "jsnum option"
  beta_1y :: "jsnum option"

record stateInfo =
  state_name :: string
  latest_data :: "row option"
  betas :: "string \<rightharpoonup> beta_windows"

definition metrics :: "string list" where
  "metrics = [''active_listing_count'', ''new_listing_count'', ''pending_listing_count'',
     ''median_listing_price'']"

definition windowBetas ::
  "DataProcessor \<Rightarrow> string \<Rightarrow> string \<Rightarrow> int list \<Rightarrow> error + beta_windows" where
  "windowBetas dp state metric commonDates =
     (case calculateBeta dp state metric 60 commonDates of Inl e \<Rightarrow> Inl e | Inr b5 \<Rightarrow>
      case calculateBeta dp state metric 36 commonDates of Inl e \<Rightarrow> Inl e | Inr b3 \<Rightarrow>
      case calculateBeta dp state metric 12 commonDates of Inl e \<Rightarrow> Inl e | Inr b1 \<Rightarrow>
        Inr \<lparr>beta_5y = b5, beta_3y = b3, beta_1y = b1\<rparr>)"

text \<open>\<^verbatim>\<open>metrics.forEach(metric => { result.betas[metric] = ... })\<close>; an exception ends
  the loop.\<close>

fun metricsLoop ::
  "DataProcessor \<Rightarrow> string \<Rightarrow> int list \<Rightarrow> string list \<Rightarrow> (string \<rightharpoonup> beta_windows)
     \<Rightarrow> error + (string \<rightharpoonup> beta_windows)" where
  "metricsLoop dp state commonDates [] acc = Inr acc"
| "metricsLoop dp state commonDates (metric # rest) acc =
     (case windowBetas dp state metric commonDates of
        Inl e \<Rightarrow> Inl e
      | Inr b \<Rightarrow> metricsLoop dp state commonDates rest (acc(metric \<mapsto> b)))"

text \<open>For a state that is not a key of \<open>stateData\<close>, \<open>getCommonDates\<close> calls \<open>map\<close> on
  \<open>undefined\<close> and throws.\<close>

definition calculateStateBetas :: "DataProcessor \<Rightarrow> string \<Rightarrow> error + stateInfo" where
  "calculateStateBetas dp state =
     (case stateData dp state of
        None \<Rightarrow> Inl TypeError
      | Some stateTimeSeries \<Rightarrow>
          let commonDates = getCommonDates stateTimeSeries (nationalData dp) in
          case metricsLoop dp state commonDates metrics Map.empty of
            Inl e \<Rightarrow> Inl e
          | Inr bs \<Rightarrow>
              Inr \<lparr>state_name = state,
                   latest_data = (case stateTimeSeries of [] \<Rightarrow> None | r # _ \<Rightarrow> Some r),
                   betas = bs\<rparr>)"

text \<open>
  The beta fields of the record that \<open>getFormattedStateData\<close> builds for the map, such as
  \<^verbatim>\<open>active_listing_count_beta_5y: stateInfo.betas?.active_listing_count?.beta_5y || 0\<close>.
  \<open>orZero\<close> is \<^verbatim>\<open>v || 0\<close> for a value \<open>v\<close> that is a number, \<open>null\<close> or \<open>undefined\<close>
  (both \<open>None\<close>): \<open>null\<close>, \<open>undefined\<close>, \<open>0\<close> and \<open>NaN\<close> are falsy. The result is again a
  value that could be \<open>null\<close>, so that the theorems can say that it is not.
\<close>

definition orZero :: "jsnum option \<Rightarrow> jsnum option" where
  "orZero v =
     (case v of
        Some (Fin x) \<Rightarrow> if x = 0 then Some (Fin 0) else Some (Fin x)
      | Some PosInf \<Rightarrow> Some PosInf
      | Some NegInf \<Rightarrow> Some NegInf
      | Some NaN \<Rightarrow> Some (Fin 0)
      | None \<Rightarrow> Some (Fin 0))"

definition formattedBeta ::
  "stateInfo \<Rightarrow> string \<Rightarrow> (beta_windows \<Rightarrow> jsnum option) \<Rightarrow> jsnum option" where
  "formattedBeta info metric window =
     orZero (case betas info metric of None \<Rightarrow> None | Some b \<Rightarrow> window b)"

section \<open>Change calculator\<close>

text \<open>
  \<open>calculateChanges\<close> returns \<^verbatim>\<open>{ mom, yoy }\<close>. Its argument may be \<open>undefined\<close>
  (\<open>None\<close>). \<open>metricAt\<close> is \<^verbatim>\<open>sortedData[i]?.[metric]\<close>; the comparator
  \<^verbatim>\<open>parseInt(b.month_date_yyyymm) - parseInt(a.month_date_yyyymm)\<close> sorts by date, newest
  first, and \<open>Array.prototype.sort\<close> is stable.
\<close>

record changes =
  mom :: real
  yoy :: real

definition metricAt :: "row list \<Rightarrow> nat \<Rightarrow> string \<Rightarrow> real option" where
  "metricAt sortedData i metric =
     (if i < length sortedData then cells (sortedData ! i) metric else None)"

definition calculateChanges :: "row list option \<Rightarrow> string \<Rightarrow> changes" where
  "calculateChanges timeSeries metric =
     (case timeSeries of
        None \<Rightarrow> \<lparr>mom = 0, yoy = 0\<rparr>
      | Some ts \<Rightarrow>
          if length ts < 2 then \<lparr>mom = 0, yoy = 0\<rparr>
          else
            let sortedData = sort_key (\<lambda>r. - month_date_yyyymm r) ts;
                currentValue = metricAt sortedData 0 metric;
                mom' =
                  (if 2 \<le> length sortedData then
                     let previousMonthValue = metricAt sortedData 1 metric in
                     if truthy currentValue \<and> truthy previousMonthValue \<and> previousMonthValue \<noteq> Some 0
                     then the currentValue / the previousMonthValue - 1 else 0
                   else 0);
                yoy' =
                  (if 13 \<le> length sortedData then
                     let yearAgoValue = metricAt sortedData 12 metric in
                     if truthy currentValue \<and> truthy yearAgoValue \<and> yearAgoValue \<noteq> Some 0
                     then the currentValue / the yearAgoValue - 1 else 0
                   else 0)
            in \<lparr>mom = mom', yoy = yoy'\<rparr>)"

section \<open>Geography name reconciler: \<open>createMetroNameMapping\<close>\<close>

text \<open>
  Names are ASCII strings, so \<open>toLowerCase\<close> changes the letters \<open>A\<close> to \<open>Z\<close> only, and
  the white space class of a regular expression is \<open>isSpace\<close>. Two names of the source
  are not free in Isabelle: \<open>includes\<close> is \<open>includesStr\<close> here and the helper \<open>normalize\<close>
  is \<open>normalizeName\<close>.
\<close>

definition toLowerChar :: "char \<Rightarrow> char" where
  "toLowerChar c =
     (case map_of (zip ''ABCDEFGHIJKLMNOPQRSTUVWXYZ'' ''abcdefghijklmnopqrstuvwxyz'') c of
        Some l \<Rightarrow> l
      | None \<Rightarrow> c)"

definition toLowerCase :: "string \<Rightarrow> string" where
  "toLowerCase s = map toLowerChar s"

text \<open>\<open>s.includes(t)\<close>: \<open>t\<close> occurs in \<open>s\<close> at some position.\<close>

definition includesStr :: "string \<Rightarrow> string \<Rightarrow> bool" where
  "includesStr s t = list_ex (\<lambda>i. take (length t) (drop i s) = t) [0..<Suc (length s)]"

text \<open>\<^verbatim>\<open>.replace(/\s+/g, ' ')\<close>: every run of white space becomes one space.\<close>

fun collapseSpaces :: "string \<Rightarrow> string" where
  "collapseSpaces [] = []"
| "collapseSpaces [c] = (if isSpace c then '' '' else [c])"
| "collapseSpaces (c # d # cs) =
     (if isSpace c \<and> isSpace d then collapseSpaces (d # cs)
      else (if isSpace c then CHR '' '' else c) # collapseSpaces (d # cs))"

text \<open>Lower case, drop every character that is not a lower-case letter, a digit or
  white space, collapse the white space, trim.\<close>

definition normalizeName :: "string \<Rightarrow> string" where
  "normalizeName name =
     trim (collapseSpaces
       (filter (\<lambda>c. c \<in> set ''abcdefghijklmnopqrstuvwxyz0123456789'' \<or> isSpace c)
          (toLowerCase name)))"

text \<open>\<^verbatim>\<open>name.split(/[-,]/)\<close>: the pieces between hyphens and commas, empty pieces
  included.\<close>

definition splitStep :: "char \<Rightarrow> string list \<times> string \<Rightarrow> string list \<times> string" where
  "splitStep c st =
     (if c = CHR ''-'' \<or> c = CHR '','' then (fst st @ [snd st], []) else (fst st, snd st @ [c]))"

definition splitHyphenComma :: "string \<Rightarrow> string list" where
  "splitHyphenComma name = (let st = fold splitStep name ([], []) in fst st @ [snd st])"

text \<open>
  \<^verbatim>\<open>part.replace(/\s+(metro|micro|area|msa).*$/i, '')\<close> removes, from the leftmost place
  where it matches, a run of white space followed by one of the four words (in any case)
  and the rest of the string; \<open>.\<close> does not match a line terminator, so the rest must
  hold none.
\<close>

definition suffixWordAt :: "string \<Rightarrow> bool" where
  "suffixWordAt t =
     list_ex (\<lambda>w. toLowerCase (take (length w) t) = w
                  \<and> list_all (\<lambda>x. x \<noteq> CHR 0x0A \<and> x \<noteq> CHR 0x0D) (drop (length w) t))
       [''metro'', ''micro'', ''area'', ''msa'']"

fun stripMetroSuffix :: "string \<Rightarrow> string" where
  "stripMetroSuffix [] = []"
| "stripMetroSuffix (c # cs) =
     (if isSpace c \<and> suffixWordAt (dropWhile isSpace cs) then [] else c # stripMetroSuffix cs)"

text \<open>The helper \<open>extractCityNames\<close>.\<close>

definition extractCityNames :: "string \<Rightarrow> string list" where
  "extractCityNames name =
     map normalizeName (map stripMetroSuffix
       (filter (\<lambda>part. 2 < length part) (map trim (splitHyphenComma name))))"

text \<open>
  The callback of \<open>cbsaCities.some\<close>: whether a token of the source label and a token of
  the canonical label count as a match. \<open>maxLength\<close> is computed and never read, as in
  the source.
\<close>

definition cityMatch :: "string \<Rightarrow> string \<Rightarrow> bool" where
  "cityMatch city cbsaCity =
     (if length city < 4 \<or> length cbsaCity < 4 then False
      else
        let minLength = min (length city) (length cbsaCity);
            maxLength = max (length city) (length cbsaCity)
        in if city = cbsaCity then True
           else if includesStr city cbsaCity \<and> real minLength * 0.8 \<le> real (length cbsaCity) then True
           else if includesStr cbsaCity city \<and> real minLength * 0.8 \<le> real (length city) then True
           else False)"

text \<open>The score of one canonical candidate: the body of \<open>cbsaNames.forEach\<close> after the
  Las Vegas guard.\<close>

definition scoreOf :: "string \<Rightarrow> string \<Rightarrow> nat" where
  "scoreOf csvName cbsaName =
     (let csvNormalized = normalizeName csvName;
          csvCities = extractCityNames csvName;
          cbsaNormalized = normalizeName cbsaName;
          cbsaCities = extractCityNames cbsaName
      in if csvNormalized = cbsaNormalized then 100
         else if includesStr cbsaNormalized csvNormalized then 80
         else
           let cityMatches = length (filter (\<lambda>city. list_ex (cityMatch city) cbsaCities) csvCities)
           in if 0 < cityMatches then min (50 + cityMatches * 15) 90 else 0)"

text \<open>One iteration of \<open>cbsaNames.forEach\<close> on the pair \<open>(bestMatch, bestScore)\<close>.\<close>

definition scoreStep :: "string \<Rightarrow> string \<Rightarrow> string option \<times> nat \<Rightarrow> string option \<times> nat" where
  "scoreStep csvName cbsaName best =
     (if includesStr (toLowerCase csvName) ''las vegas'' \<and> includesStr cbsaName ''Las Vegas, NM''
      then best
      else
        let score = scoreOf csvName cbsaName
        in if snd best < score then (Some cbsaName, score) else best)"

text \<open>The override table, in the order of the source. Labels are taken not to be names
  of properties that every JavaScript object inherits.\<close>

definition hardcodedMappings :: "(string \<times> string) list" where
  "hardcodedMappings =
    [(''New York, NY'', ''New York-Newark-Jersey City, NY-NJ Metro Area''),
     (''New York'', ''New York-Newark-Jersey City, NY-NJ Metro Area''),
     (''New York City'', ''New York-Newark-Jersey City, NY-NJ Metro Area''),
     (''NYC'', ''New York-Newark-Jersey City, NY-NJ Metro Area''),
     (''New York-Newark-Jersey City'', ''New York-Newark-Jersey City, NY-NJ Metro Area''),
     (''New York-Newark-Jersey City, NY-NJ-PA'', ''New York-Newark-Jersey City, NY-NJ Metro Area''),
     (''Washington, DC'', ''Washington-Arlington-Alexandria, DC-VA-MD-WV Metro Area''),
     (''Washington'', ''Washington-Arlington-Alexandria, DC-VA-MD-WV Metro Area''),
     (''Washington DC'', ''Washington-Arlington-Alexandria, DC-VA-MD-WV Metro Area''),
     (''DC'', ''Washington-Arlington-Alexandria, DC-VA-MD-WV Metro Area''),
     (''Washington-Arlington-Alexandria'', ''Washington-Arlington-Alexandria, DC-VA-MD-WV Metro Area''),
     (''Washington-Arlington-Alexandria, DC-VA-MD-WV'', ''Washington-Arlington-Alexandria, DC-VA-MD-WV Metro Area''),
     (''Las Vegas, NV'', ''Las Vegas-Henderson-North Las Vegas, NV Metro Area''),
     (''Las Vegas'', ''Las Vegas-Henderson-North Las Vegas, NV Metro Area''),
     (''Las Vegas Nevada'', ''Las Vegas-Henderson-North Las Vegas, NV Metro Area''),
     (''Las Vegas-Henderson'', ''Las Vegas-Henderson-North Las Vegas, NV Metro Area''),
     (''Las Vegas-Henderson-Paradise, NV'', ''Las Vegas-Henderson-North Las Vegas, NV Metro Area''),
     (''Las Vegas-Henderson-Paradise'', ''Las Vegas-Henderson-North Las Vegas, NV Metro Area''),
     (''Las Vegas-Henderson-North Las Vegas, NV'', ''Las Vegas-Henderson-North Las Vegas, NV Metro Area''),
     (''Las Vegas-Henderson-North Las Vegas'', ''Las Vegas-Henderson-North Las Vegas, NV Metro Area''),
     (''Miami, FL'', ''Miami-Fort Lauderdale-West Palm Beach, FL Metro Area''),
     (''Miami'', ''Miami-Fort Lauderdale-West Palm Beach, FL Metro Area''),
     (''Miami-Fort Lauderdale'', ''Miami-Fort Lauderdale-West Palm Beach, FL Metro Area''),
     (''Miami-Fort Lauderdale-Pompano Beach, FL'', ''Miami-Fort Lauderdale-West Palm Beach, FL Metro Area''),
     (''Miami-Fort Lauderdale-Pompano Beach'', ''Miami-Fort Lauderdale-West Palm Beach, FL Metro Area''),
     (''San Francisco, CA'', ''San Francisco-Oakland-Fremont, CA Metro Area''),
     (''San Francisco'', ''San Francisco-Oakland-Fremont, CA Metro Area''),
     (''SF'', ''San Francisco-Oakland-Fremont, CA Metro Area''),
     (''San Francisco-Oakland'', ''San Francisco-Oakland-Fremont, CA Metro Area''),
     (''San Francisco Bay Area'', ''San Francisco-Oakland-Fremont, CA Metro Area''),
     (''San Francisco-Oakland-Berkeley, CA'', ''San Francisco-Oakland-Fremont, CA Metro Area''),
     (''San Francisco-Oakland-Berkeley'', ''San Francisco-Oakland-Fremont, CA Metro Area''),
     (''Lafayette, LA'', ''Lafayette, LA Metro Area''),
     (''Lafayette-West Lafayette, IN'', ''Lafayette-West Lafayette, IN Metro Area''),
     (''Charleston-North Charleston, SC'', ''Charleston-North Charleston, SC Metro Area''),
     (''Birmingham-Hoover, AL'', ''Birmingham, AL Metro Area''),
     (''Nashville-Davidson-Murfreesboro-Franklin, TN'', ''Nashville-Davidson--Murfreesboro--Franklin, TN Metro Area''),
     (''Atlanta-Sandy Springs-Alpharetta, GA'', ''Atlanta-Sandy Springs-Roswell, GA Metro Area'')]"

text \<open>Truthiness of a value that is a string or \<open>undefined\<close>: \<open>undefined\<close> and the empty
  string are falsy.\<close>

definition truthyString :: "string option \<Rightarrow> bool" where
  "truthyString v = (case v of None \<Rightarrow> False | Some s \<Rightarrow> s \<noteq> [])"

text \<open>The first loop over \<open>csvNames\<close>, the second loop, and the function.\<close>

definition hardcodedStep :: "string \<Rightarrow> (string \<rightharpoonup> string) \<Rightarrow> (string \<rightharpoonup> string)" where
  "hardcodedStep csvName mapping =
     (if truthyString (map_of hardcodedMappings csvName)
      then mapping(csvName := map_of hardcodedMappings csvName) else mapping)"

definition fuzzyStep :: "string list \<Rightarrow> string \<Rightarrow> (string \<rightharpoonup> string) \<Rightarrow> (string \<rightharpoonup> string)" where
  "fuzzyStep cbsaNames csvName mapping =
     (if truthyString (mapping csvName) then mapping
      else
        let best = fold (scoreStep csvName) cbsaNames (None, 0)
        in if truthyString (fst best) \<and> 75 \<le> snd best then mapping(csvName := fst best)
           else mapping)"

definition createMetroNameMapping :: "string list \<Rightarrow> string list \<Rightarrow> (string \<rightharpoonup> string)" where
  "createMetroNameMapping csvNames cbsaNames =
     fold (fuzzyStep cbsaNames) csvNames (fold hardcodedStep csvNames Map.empty)"

section \<open>The formulas of the specification\<close>

text \<open>
  The specification gives the covariance as
  \<open>\<Sum>((x\<^sub>i - mean\<^sub>x)(y\<^sub>i - mean\<^sub>y)) / (n - 1)\<close> and the variance in the same form for one
  series. These definitions follow its words, to be compared with the loops of
  \<open>calculateCovariance\<close> and \<open>calculateVariance\<close>.
\<close>

definition spec_mean :: "real list \<Rightarrow> real" where
  "spec_mean x = (\<Sum>i<length x. x ! i) / real (length x)"

definition spec_covariance :: "real list \<Rightarrow> real list \<Rightarrow> real" where
  "spec_covariance x y =
     (\<Sum>i<length x. (x ! i - spec_mean x) * (y ! i - spec_mean y)) / (real (length x) - 1)"

definition spec_variance :: "real list \<Rightarrow> real" where
  "spec_variance x = (\<Sum>i<length x. (x ! i - spec_mean x) ^ 2) / (real (length x) - 1)"

text \<open>
  The specification's rule for two tokens: one contains the other, and the shorter one is
  at least 80% as long as the longer one.
\<close>

definition spec_tokenMatch :: "string \<Rightarrow> string \<Rightarrow> bool" where
  "spec_tokenMatch sourceToken canonicalToken \<longleftrightarrow>
     (includesStr sourceToken canonicalToken \<or> includesStr canonicalToken sourceToken)
     \<and> 0.8 * real (max (length sourceToken) (length canonicalToken))
         \<le> real (min (length sourceToken) (length canonicalToken))"

text \<open>
  The change of a value against a denominator, with \<open>0\<close> whenever either is missing or
  zero; and a series ordered newest first.
\<close>

definition quotientChange :: "real option \<Rightarrow> real option \<Rightarrow> real" where
  "quotientChange numerator denominator =
     (case (numerator, denominator) of
        (Some c, Some d) \<Rightarrow> if c = 0 \<or> d = 0 then 0 else c / d - 1
      | _ \<Rightarrow> 0)"

definition newestFirst :: "row list \<Rightarrow> bool" where
  "newestFirst s = sorted_wrt (\<lambda>a b. month_date_yyyymm b \<le> month_date_yyyymm a) s"

text \<open>The set of dates of a series, and a series with every value of one metric
  multiplied by a constant.\<close>

definition dates :: "row list \<Rightarrow> int set" where
  "dates timeSeries = month_date_yyyymm ` set timeSeries"

definition scaleMetric :: "real \<Rightarrow> string \<Rightarrow> row \<Rightarrow> row" where
  "scaleMetric k metric r =
     r\<lparr>cells := (cells r)(metric := map_option (\<lambda>v. k * v) (cells r metric))\<rparr>"

text \<open>
  The specification's step 4 computes \<open>(value[i] - value[i+1]) / value[i+1]\<close> for both
  series and decides once for both whether the pair of consecutive dates is kept: the
  pair is skipped when either series has a missing value or a zero denominator. These
  definitions follow its words, to be compared with the two independent calls of
  \<open>getReturns\<close> in \<open>calculateBeta\<close>.
\<close>

definition spec_return :: "real option \<Rightarrow> real option \<Rightarrow> real option" where
  "spec_return currentValue previousValue =
     (case (currentValue, previousValue) of
        (Some c, Some p) \<Rightarrow> if p = 0 then None else Some ((c - p) / p)
      | _ \<Rightarrow> None)"

fun spec_alignedReturns ::
  "(int \<rightharpoonup> row) \<Rightarrow> (int \<rightharpoonup> row) \<Rightarrow> string \<Rightarrow> int list \<Rightarrow> (real \<times> real) list" where
  "spec_alignedReturns target national metric (currentDate # previousDate # rest) =
     (case (spec_return (valueAt target currentDate metric) (valueAt target previousDate metric),
            spec_return (valueAt national currentDate metric) (valueAt national previousDate metric)) of
        (Some x, Some y) \<Rightarrow> [(x, y)]
      | _ \<Rightarrow> [])
     @ spec_alignedReturns target national metric (previousDate # rest)"
| "spec_alignedReturns target national metric [d] = []"
| "spec_alignedReturns target national metric [] = []"

text \<open>
  The pairs of consecutive dates that the loop of \<open>getReturns\<close> visits, whether a series
  has a return for a pair (its two values are there and neither is zero), the pairs it
  has a return for, and that return.
\<close>

fun datePairs :: "int list \<Rightarrow> (int \<times> int) list" where
  "datePairs (currentDate # previousDate # rest) =
     (currentDate, previousDate) # datePairs (previousDate # rest)"
| "datePairs [d] = []"
| "datePairs [] = []"

definition keepsPair :: "(int \<rightharpoonup> row) \<Rightarrow> string \<Rightarrow> int \<times> int \<Rightarrow> bool" where
  "keepsPair m metric pair =
     (case (valueAt m (fst pair) metric, valueAt m (snd pair) metric) of
        (Some c, Some p) \<Rightarrow> c \<noteq> 0 \<and> p \<noteq> 0
      | _ \<Rightarrow> False)"

definition retainedPairs :: "(int \<rightharpoonup> row) \<Rightarrow> string \<Rightarrow> int list \<Rightarrow> (int \<times> int) list" where
  "retainedPairs m metric ds = filter (keepsPair m metric) (datePairs ds)"

definition returnOf :: "(int \<rightharpoonup> row) \<Rightarrow> string \<Rightarrow> int \<times> int \<Rightarrow> real" where
  "returnOf m metric pair =
     (the (valueAt m (fst pair) metric) - the (valueAt m (snd pair) metric))
       / the (valueAt m (snd pair) metric)"

section \<open>Example data\<close>

text \<open>A row with one metric, and the three-month scenario of the specification: a
  national and a state series for May to July 2025.\<close>

definition mkRow :: "int \<Rightarrow> string \<Rightarrow> real \<Rightarrow> row" where
  "mkRow date metric v =
     \<lparr>month_date_yyyymm = date, cells = (\<lambda>c. if c = metric then Some v else None)\<rparr>"

definition ex_national :: "row list" where
  "ex_national = [mkRow 202507 ''median_listing_price'' 1210,
     mkRow 202506 ''median_listing_price'' 1100, mkRow 202505 ''median_listing_price'' 1000]"

definition ex_state :: "row list" where
  "ex_state = [mkRow 202507 ''median_listing_price'' 610,
     mkRow 202506 ''median_listing_price'' 560, mkRow 202505 ''median_listing_price'' 500]"

definition ex_dp :: DataProcessor where
  "ex_dp = \<lparr>nationalData = ex_national, stateData = [''Ohio'' \<mapsto> ex_state],
     metroData = [''Akron, OH'' \<mapsto> ex_state]\<rparr>"

definition ex_national4 :: "row list" where
  "ex_national4 = [mkRow 202507 ''median_listing_price'' 6,
     mkRow 202506 ''median_listing_price'' 2, mkRow 202505 ''median_listing_price'' 1]"

definition ex_state4 :: "row list" where
  "ex_state4 = [mkRow 202507 ''median_listing_price'' 3,
     mkRow 202506 ''median_listing_price'' 1, mkRow 202505 ''median_listing_price'' 1]"

definition ex_dp4 :: DataProcessor where
  "ex_dp4 = \<lparr>nationalData = ex_national4, stateData = [''Ohio'' \<mapsto> ex_state4],
     metroData = [''Akron, OH'' \<mapsto> ex_state4]\<rparr>"

text \<open>A national series that never moves.\<close>

definition ex_national_flat :: "row list" where
  "ex_national_flat = [mkRow 202507 ''median_listing_price'' 7,
     mkRow 202506 ''median_listing_price'' 7, mkRow 202505 ''median_listing_price'' 7]"

definition ex_dp_flat :: DataProcessor where
  "ex_dp_flat = \<lparr>nationalData = ex_national_flat, stateData = [''Ohio'' \<mapsto> ex_state],
     metroData = Map.empty\<rparr>"

text \<open>
  Twelve-month series for the 1-year window. In the first pair the state has no value in
  the oldest month and the national series none in the newest month; where both have a
  value the two series are equal. The second pair has every value.
\<close>

definition seriesOf :: "string \<Rightarrow> (int \<times> real option) list \<Rightarrow> row list" where
  "seriesOf metric dvs =
     map (\<lambda>(d, v). \<lparr>month_date_yyyymm = d, cells = (\<lambda>c. if c = metric then v else None)\<rparr>) dvs"

definition ex12_state :: "row list" where
  "ex12_state = seriesOf ''median_listing_price''
     [(202412, Some 2), (202411, Some 1), (202410, Some 2), (202409, Some 1), (202408, Some 2),
      (202407, Some 1), (202406, Some 2), (202405, Some 1), (202404, Some 2), (202403, Some 1),
      (202402, Some 2), (202401, None)]"

definition ex12_national :: "row list" where
  "ex12_national = seriesOf ''median_listing_price''
     [(202412, None), (202411, Some 1), (202410, Some 2), (202409, Some 1), (202408, Some 2),
      (202407, Some 1), (202406, Some 2), (202405, Some 1), (202404, Some 2), (202403, Some 1),
      (202402, Some 2), (202401, Some 1)]"

definition ex12_dp :: DataProcessor where
  "ex12_dp = \<lparr>nationalData = ex12_national, stateData = [''Ohio'' \<mapsto> ex12_state],
     metroData = Map.empty\<rparr>"

definition ex12_dates :: "int list" where
  "ex12_dates = [202412, 202411, 202410, 202409, 202408, 202407, 202406, 202405, 202404, 202403,
      202402, 202401]"

definition ex12c_state :: "row list" where
  "ex12c_state = seriesOf ''median_listing_price''
     [(202412, Some 3), (202411, Some 1), (202410, Some 3), (202409, Some 1), (202408, Some 3),
      (202407, Some 1), (202406, Some 3), (202405, Some 1), (202404, Some 3), (202403, Some 1),
      (202402, Some 3), (202401, Some 1)]"

definition ex12c_national :: "row list" where
  "ex12c_national = seriesOf ''median_listing_price''
     [(202412, Some 2), (202411, Some 1), (202410, Some 2), (202409, Some 1), (202408, Some 2),
      (202407, Some 1), (202406, Some 2), (202405, Some 1), (202404, Some 2), (202403, Some 1),
      (202402, Some 2), (202401, Some 1)]"

definition ex12c_dp :: DataProcessor where
  "ex12c_dp = \<lparr>nationalData = ex12c_national, stateData = [''Ohio'' \<mapsto> ex12c_state],
     metroData = Map.empty\<rparr>"

text \<open>A state series without a value in the newest month, beside the complete national
  series.\<close>

definition ex12g_state :: "row list" where
  "ex12g_state = seriesOf ''median_listing_price''
     [(202412, None), (202411, Some 1), (202410, Some 3), (202409, Some 1), (202408, Some 3),
      (202407, Some 1), (202406, Some 3), (202405, Some 1), (202404, Some 3), (202403, Some 1),
      (202402, Some 3), (202401, Some 1)]"

definition ex12g_dp :: DataProcessor where
  "ex12g_dp = \<lparr>nationalData = ex12c_national, stateData = [''Ohio'' \<mapsto> ex12g_state],
     metroData = Map.empty\<rparr>"

text \<open>A series whose newest count is zero, and thirteen months of prices.\<close>

definition ex_zero_current :: "row list" where
  "ex_zero_current = [mkRow 202507 ''pending_listing_count'' 0, mkRow 202506 ''pending_listing_count'' 5]"

definition ex13_state :: "row list" where
  "ex13_state = seriesOf ''median_listing_price''
     [(202507, Some 121), (202506, Some 110), (202505, Some 100), (202504, Some 100),
      (202503, Some 100), (202502, Some 100), (202501, Some 100), (202412, Some 100),
      (202411, Some 100), (202410, Some 100), (202409, Some 100), (202408, Some 100),
      (202407, Some 100)]"

section \<open>The parser: invariant of the loop\<close>

text \<open>The loop invariant: no quote ever enters \<open>current\<close> or a finished field, and
  every finished field is the result of a \<open>trim\<close>.\<close>

definition csv_inv :: "csv_state \<Rightarrow> bool" where
  "csv_inv s \<longleftrightarrow> CHR 0x22 \<notin> set (current s) \<and>
     (\<forall>f \<in> set (vals s). CHR 0x22 \<notin> set f \<and>
        (f = [] \<or> (\<not> isSpace (hd f) \<and> \<not> isSpace (last f))))"

section \<open>Properties of the parser\<close>

lemma trim_no_outer_space:
  "trim s = [] \<or> (\<not> isSpace (hd (trim s)) \<and> \<not> isSpace (last (trim s)))"
proof (cases "trim s = []")
  case True
  then show ?thesis by simp
next
  case False
  let ?a = "dropWhile isSpace s"
  let ?b = "dropWhile isSpace (rev ?a)"
  from False have b: "?b \<noteq> []" by (simp add: trim_def)
  then have hb: "\<not> isSpace (hd ?b)" by (rule hd_dropWhile)
  have last_t: "last (trim s) = hd ?b" using b by (simp add: trim_def last_rev)
  have a: "?a \<noteq> []"
  proof
    assume h: "?a = []"
    have "?b = []" unfolding h by simp
    with b show False by contradiction
  qed
  then have ha: "\<not> isSpace (hd ?a)" by (rule hd_dropWhile)
  have "\<exists>ys. rev ?a = ys @ ?b"
    by (metis takeWhile_dropWhile_id)
  then obtain ys where ys: "rev ?a = ys @ ?b" ..
  then have "?a = rev ?b @ rev ys" by (metis rev_append rev_rev_ident)
  then have "hd ?a = hd (rev ?b)" using b by (metis hd_append2 rev_is_Nil_conv)
  then have "\<not> isSpace (hd (trim s))" using ha by (simp add: trim_def)
  with hb last_t show ?thesis by simp
qed

lemma trim_subset: "set (trim s) \<subseteq> set s"
  by (auto simp: trim_def dest!: set_dropWhileD)

lemma csv_inv_step: "csv_inv s \<Longrightarrow> csv_inv (csv_step ch s)"
  using trim_subset [of "current s"] trim_no_outer_space [of "current s"]
  by (auto simp: csv_inv_def csv_step_def)

lemma csv_inv_fold: "csv_inv s \<Longrightarrow> csv_inv (fold csv_step line s)"
  by (induction line arbitrary: s) (simp_all add: csv_inv_step)

text \<open>
  Claim C10. For every input line, no field returned by \<open>parseCSVLine\<close> contains a
  double quote and none starts or ends with white space: every quote only toggles
  \<open>inQuotes\<close>, and every field is trimmed before it is stored. In particular the
  doubled quote of a quoted field disappears: the line \<^verbatim>\<open>a,"x""y",b\<close> yields the
  fields \<open>a\<close>, \<open>xy\<close>, \<open>b\<close>.
\<close>

theorem parseCSVLine_no_quote_trimmed:
  "(\<forall>f \<in> set (parseCSVLine line).
      CHR 0x22 \<notin> set f \<and> (f = [] \<or> (\<not> isSpace (hd f) \<and> \<not> isSpace (last f))))
   \<and> parseCSVLine [CHR ''a'', CHR '','', CHR 0x22, CHR ''x'', CHR 0x22, CHR 0x22, CHR ''y'',
         CHR 0x22, CHR '','', CHR ''b''] = [''a'', ''xy'', ''b'']"
proof
  let ?s = "fold csv_step line \<lparr>vals = [], current = [], inQuotes = False\<rparr>"
  have "csv_inv \<lparr>vals = [], current = [], inQuotes = False\<rparr>"
    by (simp add: csv_inv_def)
  then have inv: "csv_inv ?s" by (rule csv_inv_fold)
  show "\<forall>f \<in> set (parseCSVLine line).
      CHR 0x22 \<notin> set f \<and> (f = [] \<or> (\<not> isSpace (hd f) \<and> \<not> isSpace (last f)))"
    using inv trim_subset [of "current ?s"] trim_no_outer_space [of "current ?s"]
    by (auto simp: parseCSVLine_def csv_inv_def Let_def)
next
  show "parseCSVLine [CHR ''a'', CHR '','', CHR 0x22, CHR ''x'', CHR 0x22, CHR 0x22, CHR ''y'',
         CHR 0x22, CHR '','', CHR ''b''] = [''a'', ''xy'', ''b'']"
    by (simp add: parseCSVLine_def csv_step_def trim_def isSpace_def)
qed

theorem parseCSVLine_no_quote_trimmed_witness:
  "parseCSVLine [CHR 0x20, CHR 0x22, CHR ''p'', CHR '','', CHR ''q'', CHR 0x22, CHR 0x20, CHR '','', CHR ''r'']
     = [''p,q'', ''r'']
   \<and> CHR 0x22 \<notin> set ''p,q'' \<and> \<not> isSpace (hd ''p,q'') \<and> \<not> isSpace (last ''p,q'')
   \<and> CHR 0x22 \<notin> set ''r'' \<and> \<not> isSpace (hd ''r'') \<and> \<not> isSpace (last ''r'')"
proof -
  let ?l = "[CHR 0x20, CHR 0x22, CHR ''p'', CHR '','', CHR ''q'', CHR 0x22, CHR 0x20, CHR '','', CHR ''r'']"
  have e: "parseCSVLine ?l = [''p,q'', ''r'']"
    by (simp add: parseCSVLine_def csv_step_def trim_def isSpace_def)
  from parseCSVLine_no_quote_trimmed [of ?l] show ?thesis
    unfolding e by simp
qed

section \<open>The loops as sums\<close>

lemma reduceSum_sum_list_aux: "fold (\<lambda>val sum. sum + val) x a = a + sum_list x" for a :: real
  by (induction x arbitrary: a) simp_all

lemma reduceSum_sum_list: "reduceSum x = sum_list x"
  by (simp add: reduceSum_def reduceSum_sum_list_aux)

lemma fold_index_sum: "fold (\<lambda>i c. c + f i) [0..<n] a = a + (\<Sum>i<n. f i)" for a :: real
  by (induction n arbitrary: a) simp_all

lemma reduceSum_mean: "reduceSum x / real (length x) = spec_mean x"
  by (simp add: reduceSum_sum_list spec_mean_def sum_list_sum_nth atLeast0LessThan)

lemma calculateCovariance_spec:
  "length x = length y \<Longrightarrow> 2 \<le> length x \<Longrightarrow> calculateCovariance x y = Fin (spec_covariance x y)"
  by (simp add: calculateCovariance_def Let_def fold_index_sum spec_covariance_def reduceSum_mean[symmetric])

lemma calculateVariance_spec:
  "2 \<le> length x \<Longrightarrow> calculateVariance x = Fin (spec_variance x)"
  by (auto simp add: calculateVariance_def Let_def fold_index_sum spec_variance_def reduceSum_mean)

lemma calculateVariance_single: "calculateVariance [v] = NaN"
  by (simp add: calculateVariance_def reduceSum_def)

lemma setOrder_set: "set (setOrder xs) = set xs"
  by (simp add: setOrder_def)

lemma setOrder_distinct: "distinct (setOrder xs)"
  by (simp add: setOrder_def)

lemma getCommonDates_set: "set (getCommonDates a b) = dates a \<inter> dates b"
  by (auto simp: getCommonDates_def Let_def setOrder_set dates_def)

lemma getCommonDates_distinct: "distinct (getCommonDates a b)"
  by (simp add: getCommonDates_def Let_def setOrder_distinct)

lemma getCommonDates_desc: "sorted (rev (getCommonDates a b))"
  by (simp add: getCommonDates_def Let_def)

lemma getCommonDates_length: "length (getCommonDates a b) = card (dates a \<inter> dates b)"
  using getCommonDates_set [of a b] getCommonDates_distinct [of a b]
  by (metis distinct_card)

lemma getCommonDatesMetro_eq: "getCommonDatesMetro a b = getCommonDates a b"
  by (simp add: getCommonDatesMetro_def getCommonDates_def)

lemma calculateMetroBeta_eq:
  "calculateMetroBeta dp g m w cd = calculateBeta (dp\<lparr>stateData := metroData dp\<rparr>) g m w cd"
  by (cases "metroData dp g")
    (simp_all add: calculateMetroBeta_def calculateBeta_def getMetroReturns_def getReturns_def Let_def)

lemma calculateBeta_short: "length cd < w \<Longrightarrow> calculateBeta dp g m w cd = Inr None"
  by (simp add: calculateBeta_def)

lemma calculateBeta_long:
  assumes "stateData dp g = Some ts" and "w \<le> length cd"
    and "getReturns ts m (take w cd) = x" and "getReturns (nationalData dp) m (take w cd) = y"
  shows "calculateBeta dp g m w cd =
     (if length x \<noteq> length y \<or> length x < 2 then Inr None
      else if spec_variance y = 0 then Inr None
      else Inr (Some (Fin (spec_covariance x y / spec_variance y))))"
proof (cases "length x \<noteq> length y \<or> length x < 2")
  case True
  with assms show ?thesis by (auto simp: calculateBeta_def Let_def)
next
  case False
  then have l: "length x = length y" "2 \<le> length x" "2 \<le> length y" by auto
  have nw: "\<not> length cd < w" using assms(2) by simp
  show ?thesis
    using False
    by (simp add: calculateBeta_def Let_def assms(1,3,4) nw calculateCovariance_spec [OF l(1,2)]
        calculateVariance_spec [OF l(3)])
qed

lemma calculateBeta_cases:
  assumes "stateData dp g = Some ts"
  shows "\<exists>b. calculateBeta dp g m w cd = Inr b"
proof (cases "length cd < w")
  case True
  then show ?thesis by (simp add: calculateBeta_short)
next
  case False
  then have "w \<le> length cd" by simp
  from calculateBeta_long [OF assms this refl refl, of m] show ?thesis
    by (auto split: if_splits)
qed

lemma spec_variance_zeros: "spec_variance (replicate n 0) = 0"
  by (simp add: spec_variance_def spec_mean_def)

lemma calculateVariance_zeros: "2 \<le> n \<Longrightarrow> calculateVariance (replicate n 0) = Fin 0"
  by (simp add: calculateVariance_spec spec_variance_zeros)

section \<open>The aligned calendar decides the first null\<close>

lemma ex_dates: "dates ex_state \<inter> dates ex_national = {202505, 202506, 202507}"
  by (auto simp: dates_def ex_state_def ex_national_def mkRow_def)

text \<open>
  Claim C1. For every geography (a state or a metro area), every metric and every window
  length \<open>w\<close>, in particular 12, 36 and 60: when the aligned calendar, the dates present
  both in the geography's series and in the national series, has fewer than \<open>w\<close>
  entries, the beta computed for that window on \<open>getCommonDates\<close> is \<open>null\<close>.
\<close>

theorem calculateBeta_null_on_short_calendar:
  "(stateData dp g = Some ts \<longrightarrow> card (dates ts \<inter> dates (nationalData dp)) < w \<longrightarrow>
      calculateBeta dp g m w (getCommonDates ts (nationalData dp)) = Inr None)
   \<and> (metroData dp g = Some ts \<longrightarrow> card (dates ts \<inter> dates (nationalData dp)) < w \<longrightarrow>
      calculateMetroBeta dp g m w (getCommonDatesMetro ts (nationalData dp)) = Inr None)"
  by (simp add: calculateMetroBeta_eq getCommonDatesMetro_eq calculateBeta_short getCommonDates_length)

theorem calculateBeta_null_on_short_calendar_witness:
  "card (dates ex_state \<inter> dates ex_national) = 3
   \<and> calculateBeta ex_dp ''Ohio'' ''median_listing_price'' 12 (getCommonDates ex_state ex_national) = Inr None
   \<and> calculateMetroBeta ex_dp ''Akron, OH'' ''median_listing_price'' 12 (getCommonDatesMetro ex_state ex_national) = Inr None"
proof -
  have c: "card (dates ex_state \<inter> dates ex_national) = 3" by (simp add: ex_dates)
  have s: "stateData ex_dp ''Ohio'' = Some ex_state" "metroData ex_dp ''Akron, OH'' = Some ex_state"
    "nationalData ex_dp = ex_national"
    by (simp_all add: ex_dp_def)
  from calculateBeta_null_on_short_calendar [of ex_dp "''Ohio''" ex_state 12 "''median_listing_price''"]
    calculateBeta_null_on_short_calendar [of ex_dp "''Akron, OH''" ex_state 12 "''median_listing_price''"]
  show ?thesis by (simp add: s c)
qed


section \<open>Beta is covariance over variance\<close>

lemma ex4_x: "getReturns ex_state4 ''median_listing_price'' (take 3 [202507, 202506, 202505]) = [2, 0]"
  by (simp add: getReturns_def dataMap_def ex_state4_def mkRow_def valueAt_def pairReturn_def truthy_def)

lemma ex4_y: "getReturns ex_national4 ''median_listing_price'' (take 3 [202507, 202506, 202505]) = [2, 1]"
  by (simp add: getReturns_def dataMap_def ex_national4_def mkRow_def valueAt_def pairReturn_def truthy_def)

lemma ex4_spec: "spec_covariance [2, 0] [2, 1] = 1" "spec_variance [2, 1] = 1 / 2"
  by (simp_all add: spec_covariance_def spec_variance_def spec_mean_def lessThan_Suc numeral_2_eq_2 power2_eq_square)

text \<open>
  Claim C4. For return vectors \<open>x\<close> (local) and \<open>y\<close> (national) of the same length
  \<open>n \<ge> 2\<close>, \<open>calculateCovariance\<close> is the sample covariance
  \<open>\<Sum>((x\<^sub>i - mean\<^sub>x)(y\<^sub>i - mean\<^sub>y)) / (n - 1)\<close>, \<open>calculateVariance\<close> is the sample variance
  in the same form, and the beta that \<open>calculateBeta\<close> returns for these two return series
  is their quotient, and \<open>null\<close> exactly when the national variance is zero.
\<close>

theorem calculateBeta_is_covariance_over_variance:
  "length x = length y \<and> 2 \<le> length x \<longrightarrow>
     calculateCovariance x y = Fin (spec_covariance x y)
     \<and> calculateVariance y = Fin (spec_variance y)
     \<and> (stateData dp g = Some ts \<and> w \<le> length cd
          \<and> getReturns ts m (take w cd) = x \<and> getReturns (nationalData dp) m (take w cd) = y \<longrightarrow>
        calculateBeta dp g m w cd =
          Inr (if spec_variance y = 0 then None
               else Some (Fin (spec_covariance x y / spec_variance y))))"
  using calculateBeta_long [of dp g ts w cd m x y]
  by (auto simp: calculateCovariance_spec calculateVariance_spec)

theorem calculateBeta_is_covariance_over_variance_witness:
  "calculateCovariance [2, 0] [2, 1] = Fin 1 \<and> calculateVariance [2, 1] = Fin (1 / 2)
   \<and> calculateBeta ex_dp4 ''Ohio'' ''median_listing_price'' 3 [202507, 202506, 202505] = Inr (Some (Fin 2))"
proof -
  have s: "stateData ex_dp4 ''Ohio'' = Some ex_state4" "nationalData ex_dp4 = ex_national4"
    by (simp_all add: ex_dp4_def)
  from calculateBeta_is_covariance_over_variance [of "[2, 0]" "[2, 1]" ex_dp4 "''Ohio''" ex_state4 3 "[202507, 202506, 202505]" "''median_listing_price''"]
  show ?thesis
    unfolding s ex4_x ex4_y ex4_spec by simp
qed


section \<open>Insufficient data: \<open>null\<close> from the engine, zero in the formatted record\<close>

lemma calculateBeta_projr:
  "stateData dp g = Some ts \<Longrightarrow> calculateBeta dp g m w cd = Inr (projr (calculateBeta dp g m w cd))"
  using calculateBeta_cases [of dp g ts m w cd] by auto

lemma windowBetas_total:
  assumes "stateData dp g = Some ts"
  shows "windowBetas dp g m cd =
     Inr \<lparr>beta_5y = projr (calculateBeta dp g m 60 cd),
          beta_3y = projr (calculateBeta dp g m 36 cd),
          beta_1y = projr (calculateBeta dp g m 12 cd)\<rparr>"
proof -
  obtain b5 b3 b1 where "calculateBeta dp g m 60 cd = Inr b5" "calculateBeta dp g m 36 cd = Inr b3"
    "calculateBeta dp g m 12 cd = Inr b1"
    using calculateBeta_cases [OF assms] by meson
  then show ?thesis by (simp add: windowBetas_def)
qed

lemma metricsLoop_total:
  assumes "stateData dp g = Some ts"
  shows "metricsLoop dp g cd ms acc =
     Inr (\<lambda>m. if m \<in> set ms
               then Some \<lparr>beta_5y = projr (calculateBeta dp g m 60 cd),
                          beta_3y = projr (calculateBeta dp g m 36 cd),
                          beta_1y = projr (calculateBeta dp g m 12 cd)\<rparr>
               else acc m)"
proof (induction ms arbitrary: acc)
  case Nil
  show ?case by simp
next
  case (Cons a ms)
  show ?case
    by (auto simp: windowBetas_total [OF assms] Cons.IH intro!: ext)
qed

lemma calculateStateBetas_total:
  assumes "stateData dp g = Some ts" and "m \<in> set metrics"
  shows "\<exists>info. calculateStateBetas dp g = Inr info \<and>
     betas info m = Some \<lparr>beta_5y = projr (calculateBeta dp g m 60 (getCommonDates ts (nationalData dp))),
          beta_3y = projr (calculateBeta dp g m 36 (getCommonDates ts (nationalData dp))),
          beta_1y = projr (calculateBeta dp g m 12 (getCommonDates ts (nationalData dp)))\<rparr>"
  using assms(2) by (simp add: calculateStateBetas_def assms(1) Let_def metricsLoop_total [OF assms(1)])

lemma orZero_cases: "orZero v \<noteq> None \<and> orZero v \<noteq> Some NaN"
  by (simp add: orZero_def split: option.splits jsnum.splits)

lemma formattedBeta_cases: "formattedBeta info m sel \<noteq> None \<and> formattedBeta info m sel \<noteq> Some NaN"
  by (simp add: formattedBeta_def orZero_cases)

lemma calculateBeta_null_conditions:
  assumes "stateData dp g = Some ts"
  shows "(\<exists>b. calculateBeta dp g m w cd = Inr b)
    \<and> (length cd < w \<longrightarrow> calculateBeta dp g m w cd = Inr None)
    \<and> (length (getReturns ts m (take w cd)) < 2 \<longrightarrow> calculateBeta dp g m w cd = Inr None)
    \<and> (length (getReturns (nationalData dp) m (take w cd)) < 2 \<longrightarrow> calculateBeta dp g m w cd = Inr None)
    \<and> (calculateVariance (getReturns (nationalData dp) m (take w cd)) = Fin 0 \<longrightarrow>
          calculateBeta dp g m w cd = Inr None)"
proof (cases "length cd < w")
  case True
  then show ?thesis by (simp add: calculateBeta_short)
next
  case False
  then have w: "w \<le> length cd" by simp
  have long: "calculateBeta dp g m w cd =
     (if length (getReturns ts m (take w cd)) \<noteq> length (getReturns (nationalData dp) m (take w cd))
         \<or> length (getReturns ts m (take w cd)) < 2 then Inr None
      else if spec_variance (getReturns (nationalData dp) m (take w cd)) = 0 then Inr None
      else Inr (Some (Fin (spec_covariance (getReturns ts m (take w cd))
             (getReturns (nationalData dp) m (take w cd))
           / spec_variance (getReturns (nationalData dp) m (take w cd))))))"
    by (rule calculateBeta_long [OF assms w refl refl])
  have v: "2 \<le> length (getReturns (nationalData dp) m (take w cd)) \<Longrightarrow>
      calculateVariance (getReturns (nationalData dp) m (take w cd)) = Fin 0 \<Longrightarrow>
      spec_variance (getReturns (nationalData dp) m (take w cd)) = 0"
    by (simp add: calculateVariance_spec)
  show ?thesis
    unfolding long using v w by auto
qed

lemma ex_commonDates: "getCommonDates ex_state ex_national = [202507, 202506, 202505]"
  by (simp add: getCommonDates_def setOrder_def ex_state_def ex_national_def mkRow_def)

text \<open>
  Claim C3, as stated, fails: the record built for the consumers replaces a \<open>null\<close> beta
  by \<open>0\<close>. In the three-month scenario the aligned calendar is shorter than the 1-year
  window, \<open>calculateBeta\<close> returns \<open>null\<close>, and the formatted field
  \<open>median_listing_price_beta_1y\<close> is \<open>0\<close>.
\<close>

theorem formattedBeta_null_shown_as_zero_counterexample:
  "length (getCommonDates ex_state (nationalData ex_dp)) < 12
   \<and> calculateBeta ex_dp ''Ohio'' ''median_listing_price'' 12 (getCommonDates ex_state (nationalData ex_dp)) = Inr None
   \<and> \<not> isl (calculateStateBetas ex_dp ''Ohio'')
   \<and> formattedBeta (projr (calculateStateBetas ex_dp ''Ohio'')) ''median_listing_price'' beta_1y = Some (Fin 0)"
proof -
  have n: "nationalData ex_dp = ex_national" and s: "stateData ex_dp ''Ohio'' = Some ex_state"
    by (simp_all add: ex_dp_def)
  have m: "''median_listing_price'' \<in> set metrics" by (simp add: metrics_def)
  have b: "calculateBeta ex_dp ''Ohio'' ''median_listing_price'' 12 [202507, 202506, 202505] = Inr None"
    by (simp add: calculateBeta_def)
  from calculateStateBetas_total [OF s m] obtain info where
    "calculateStateBetas ex_dp ''Ohio'' = Inr info" and
    "beta_1y (the (betas info ''median_listing_price'')) = projr (calculateBeta ex_dp ''Ohio'' ''median_listing_price'' 12 [202507, 202506, 202505])"
    and "betas info ''median_listing_price'' \<noteq> None"
    unfolding n ex_commonDates by auto
  then have "\<not> isl (calculateStateBetas ex_dp ''Ohio'')
    \<and> formattedBeta (projr (calculateStateBetas ex_dp ''Ohio'')) ''median_listing_price'' beta_1y = Some (Fin 0)"
    by (auto simp add: formattedBeta_def b orZero_def)
  then show ?thesis
    unfolding n ex_commonDates using b by simp
qed

text \<open>
  Claim C3, amended. For a geography that is a key of \<open>stateData\<close>, \<open>calculateBeta\<close>
  never throws, and each insufficiency condition makes it return \<open>null\<close>: an aligned
  calendar shorter than the window, fewer than two returns in either series, a national
  variance that \<open>calculateVariance\<close> computes as zero. \<open>calculateStateBetas\<close> does not throw
  either, and the beta fields of the formatted record are \<open>beta || 0\<close>: a beta that is
  \<open>null\<close> or \<open>NaN\<close> is shown as \<open>0\<close>, and a formatted field is never \<open>null\<close> and never
  \<open>NaN\<close>. Whether \<open>calculateBeta\<close> itself can return \<open>NaN\<close> is not stated: with doubles
  it can, by overflow.
\<close>

theorem calculateBeta_null_and_formatted_zero:
  "stateData dp g = Some ts \<longrightarrow>
     (\<exists>b. calculateBeta dp g m w cd = Inr b)
     \<and> (length cd < w \<longrightarrow> calculateBeta dp g m w cd = Inr None)
     \<and> (length (getReturns ts m (take w cd)) < 2 \<longrightarrow> calculateBeta dp g m w cd = Inr None)
     \<and> (length (getReturns (nationalData dp) m (take w cd)) < 2 \<longrightarrow>
          calculateBeta dp g m w cd = Inr None)
     \<and> (calculateVariance (getReturns (nationalData dp) m (take w cd)) = Fin 0 \<longrightarrow>
          calculateBeta dp g m w cd = Inr None)
     \<and> (m \<in> set metrics \<longrightarrow>
          (\<exists>info. calculateStateBetas dp g = Inr info
             \<and> formattedBeta info m beta_5y =
                 orZero (projr (calculateBeta dp g m 60 (getCommonDates ts (nationalData dp))))
             \<and> formattedBeta info m beta_3y =
                 orZero (projr (calculateBeta dp g m 36 (getCommonDates ts (nationalData dp))))
             \<and> formattedBeta info m beta_1y =
                 orZero (projr (calculateBeta dp g m 12 (getCommonDates ts (nationalData dp))))))
     \<and> orZero None = Some (Fin 0) \<and> orZero (Some NaN) = Some (Fin 0)
     \<and> orZero v \<noteq> None \<and> orZero v \<noteq> Some NaN"
proof (intro impI)
  assume s: "stateData dp g = Some ts"
  have f: "m \<in> set metrics \<longrightarrow>
          (\<exists>info. calculateStateBetas dp g = Inr info
             \<and> formattedBeta info m beta_5y =
                 orZero (projr (calculateBeta dp g m 60 (getCommonDates ts (nationalData dp))))
             \<and> formattedBeta info m beta_3y =
                 orZero (projr (calculateBeta dp g m 36 (getCommonDates ts (nationalData dp))))
             \<and> formattedBeta info m beta_1y =
                 orZero (projr (calculateBeta dp g m 12 (getCommonDates ts (nationalData dp)))))"
  proof
    assume "m \<in> set metrics"
    from calculateStateBetas_total [OF s this] obtain info where
      i: "calculateStateBetas dp g = Inr info" and
      b: "betas info m = Some \<lparr>beta_5y = projr (calculateBeta dp g m 60 (getCommonDates ts (nationalData dp))),
          beta_3y = projr (calculateBeta dp g m 36 (getCommonDates ts (nationalData dp))),
          beta_1y = projr (calculateBeta dp g m 12 (getCommonDates ts (nationalData dp)))\<rparr>"
      by blast
    show "\<exists>info. calculateStateBetas dp g = Inr info
             \<and> formattedBeta info m beta_5y =
                 orZero (projr (calculateBeta dp g m 60 (getCommonDates ts (nationalData dp))))
             \<and> formattedBeta info m beta_3y =
                 orZero (projr (calculateBeta dp g m 36 (getCommonDates ts (nationalData dp))))
             \<and> formattedBeta info m beta_1y =
                 orZero (projr (calculateBeta dp g m 12 (getCommonDates ts (nationalData dp))))"
      by (rule exI [of _ info]) (simp add: i formattedBeta_def b)
  qed
  have o: "orZero None = Some (Fin 0)" "orZero (Some NaN) = Some (Fin 0)"
    by (simp_all add: orZero_def)
  from calculateBeta_null_conditions [OF s, of m w cd] f o orZero_cases [of v]
  show "(\<exists>b. calculateBeta dp g m w cd = Inr b)
     \<and> (length cd < w \<longrightarrow> calculateBeta dp g m w cd = Inr None)
     \<and> (length (getReturns ts m (take w cd)) < 2 \<longrightarrow> calculateBeta dp g m w cd = Inr None)
     \<and> (length (getReturns (nationalData dp) m (take w cd)) < 2 \<longrightarrow>
          calculateBeta dp g m w cd = Inr None)
     \<and> (calculateVariance (getReturns (nationalData dp) m (take w cd)) = Fin 0 \<longrightarrow>
          calculateBeta dp g m w cd = Inr None)
     \<and> (m \<in> set metrics \<longrightarrow>
          (\<exists>info. calculateStateBetas dp g = Inr info
             \<and> formattedBeta info m beta_5y =
                 orZero (projr (calculateBeta dp g m 60 (getCommonDates ts (nationalData dp))))
             \<and> formattedBeta info m beta_3y =
                 orZero (projr (calculateBeta dp g m 36 (getCommonDates ts (nationalData dp))))
             \<and> formattedBeta info m beta_1y =
                 orZero (projr (calculateBeta dp g m 12 (getCommonDates ts (nationalData dp))))))
     \<and> orZero None = Some (Fin 0) \<and> orZero (Some NaN) = Some (Fin 0)
     \<and> orZero v \<noteq> None \<and> orZero v \<noteq> Some NaN"
    by blast
qed

theorem calculateBeta_null_and_formatted_zero_witness:
  "stateData ex_dp ''Ohio'' = Some ex_state
   \<and> calculateBeta ex_dp ''Ohio'' ''median_listing_price'' 12 [202507, 202506, 202505] = Inr None
   \<and> formattedBeta (projr (calculateStateBetas ex_dp ''Ohio'')) ''median_listing_price'' beta_1y = Some (Fin 0)
   \<and> orZero (Some NaN) = Some (Fin 0)"
proof -
  have n: "nationalData ex_dp = ex_national" and s: "stateData ex_dp ''Ohio'' = Some ex_state"
    by (simp_all add: ex_dp_def)
  have m: "''median_listing_price'' \<in> set metrics" by (simp add: metrics_def)
  have l: "length [202507, 202506, 202505 :: int] < 12" by simp
  from calculateBeta_null_and_formatted_zero [of ex_dp "''Ohio''" ex_state "''median_listing_price''" 12 "[202507, 202506, 202505]" None]
  show ?thesis
    unfolding n ex_commonDates using s m l by (auto simp: orZero_def)
qed


section \<open>A flat national series\<close>

lemma dataMap_fold_mem:
  "fold (\<lambda>r m. m(month_date_yyyymm r \<mapsto> r)) ts m0 d = Some r \<Longrightarrow> r \<in> set ts \<or> m0 d = Some r"
proof (induction ts arbitrary: m0)
  case Nil
  then show ?case by simp
next
  case (Cons a ts)
  from Cons.prems
  have "fold (\<lambda>r m. m(month_date_yyyymm r \<mapsto> r)) ts (m0(month_date_yyyymm a \<mapsto> a)) d = Some r"
    by (simp only: fold_simps o_apply)
  from Cons.IH [OF this] show ?case by (auto split: if_splits)
qed

lemma dataMap_mem: "dataMap ts d = Some r \<Longrightarrow> r \<in> set ts"
  using dataMap_fold_mem [of ts Map.empty d r] by (simp add: dataMap_def)

lemma valueAt_const:
  "\<forall>r \<in> set ts. cells r m = Some c \<Longrightarrow> valueAt (dataMap ts) d m = None \<or> valueAt (dataMap ts) d m = Some c"
  by (auto simp: valueAt_def split: option.splits dest: dataMap_mem)

lemma pairReturn_const:
  "a = None \<or> a = Some c \<Longrightarrow> b = None \<or> b = Some c \<Longrightarrow> pairReturn a b = [] \<or> pairReturn a b = [0]"
  by (auto simp: pairReturn_def truthy_def)

lemma returnsLoop_const:
  "\<forall>r \<in> set ts. cells r m = Some c \<Longrightarrow> \<exists>k. returnsLoop (dataMap ts) m ds = replicate k 0"
proof (induction "dataMap ts" m ds rule: returnsLoop.induct)
  case (1 metric currentDate previousDate rest)
  then obtain k where k: "returnsLoop (dataMap ts) metric (previousDate # rest) = replicate k 0"
    by blast
  from pairReturn_const [OF valueAt_const [OF 1(2)] valueAt_const [OF 1(2)]]
  have "pairReturn (valueAt (dataMap ts) currentDate metric) (valueAt (dataMap ts) previousDate metric) = []
     \<or> pairReturn (valueAt (dataMap ts) currentDate metric) (valueAt (dataMap ts) previousDate metric) = [0]" .
  then show ?case
  proof
    assume "pairReturn (valueAt (dataMap ts) currentDate metric) (valueAt (dataMap ts) previousDate metric) = []"
    with k show ?thesis by auto
  next
    assume "pairReturn (valueAt (dataMap ts) currentDate metric) (valueAt (dataMap ts) previousDate metric) = [0]"
    with k have "returnsLoop (dataMap ts) metric (currentDate # previousDate # rest) = replicate (Suc k) 0"
      by simp
    then show ?thesis by blast
  qed
next
  case (2 metric d)
  show ?case by (rule exI [of _ 0]) simp
next
  case (3 metric)
  show ?case by (rule exI [of _ 0]) simp
qed

lemma calculateBeta_zero_returns:
  assumes "stateData dp g = Some ts" and "getReturns (nationalData dp) m (take w cd) = replicate n 0"
  shows "calculateBeta dp g m w cd = Inr None"
proof (cases "length cd < w")
  case True
  then show ?thesis by (simp add: calculateBeta_short)
next
  case False
  then have "w \<le> length cd" by simp
  from calculateBeta_long [OF assms(1) this refl assms(2)] show ?thesis
    by (simp add: spec_variance_zeros)
qed

lemma ex_flat_returns:
  "getReturns ex_national_flat ''median_listing_price'' (take 3 [202507, 202506, 202505]) = replicate 2 0"
  by (simp add: getReturns_def dataMap_def ex_national_flat_def mkRow_def valueAt_def pairReturn_def
      truthy_def numeral_2_eq_2)

text \<open>
  Claim C6, as stated, fails for \<open>n = 1\<close>: the variance of a single value is \<open>0 / 0\<close>,
  which is \<open>NaN\<close> and not \<open>0\<close>.
\<close>

theorem calculateVariance_single_value_counterexample: "calculateVariance (replicate 1 5) = NaN"
  by (simp add: calculateVariance_single)


text \<open>
  Claim C6, amended. A national series whose metric never changes has returns that are
  all zero. For a series of \<open>n \<ge> 2\<close> zeros \<open>calculateVariance\<close> returns exactly \<open>0\<close>, and
  every beta that \<open>calculateBeta\<close> computes against a national return series of zeros,
  of any length, and so against a national series whose metric never changes, is
  \<open>null\<close>. (Every operation on these zeros is exact in doubles too. A constant series of
  another value is not covered: there the doubles round the mean.)
\<close>

theorem calculateVariance_constant_zero:
  "(2 \<le> n \<longrightarrow> calculateVariance (replicate n 0) = Fin 0)
   \<and> (stateData dp g = Some ts \<and> getReturns (nationalData dp) m (take w cd) = replicate n 0 \<longrightarrow>
        calculateBeta dp g m w cd = Inr None)
   \<and> (stateData dp g = Some ts \<and> (\<forall>r \<in> set (nationalData dp). cells r m = Some c) \<longrightarrow>
        (\<exists>k. getReturns (nationalData dp) m (take w cd) = replicate k 0)
        \<and> calculateBeta dp g m w cd = Inr None)"
proof (intro conjI impI)
  assume "2 \<le> n" then show "calculateVariance (replicate n 0) = Fin 0"
    by (rule calculateVariance_zeros)
next
  assume "stateData dp g = Some ts \<and> getReturns (nationalData dp) m (take w cd) = replicate n 0"
  then show "calculateBeta dp g m w cd = Inr None"
    using calculateBeta_zero_returns by blast
next
  assume a: "stateData dp g = Some ts \<and> (\<forall>r \<in> set (nationalData dp). cells r m = Some c)"
  then obtain k where k: "getReturns (nationalData dp) m (take w cd) = replicate k 0"
    unfolding getReturns_def using returnsLoop_const by blast
  then show "\<exists>k. getReturns (nationalData dp) m (take w cd) = replicate k 0" ..
  from a k show "calculateBeta dp g m w cd = Inr None"
    using calculateBeta_zero_returns by blast
qed

theorem calculateVariance_constant_zero_witness:
  "calculateVariance (replicate 3 0) = Fin 0
   \<and> getReturns (nationalData ex_dp_flat) ''median_listing_price'' (take 3 [202507, 202506, 202505])
       = replicate 2 0
   \<and> calculateBeta ex_dp_flat ''Ohio'' ''median_listing_price'' 3 [202507, 202506, 202505] = Inr None"
proof -
  have s: "stateData ex_dp_flat ''Ohio'' = Some ex_state" "nationalData ex_dp_flat = ex_national_flat"
    by (simp_all add: ex_dp_flat_def)
  have c: "\<forall>r \<in> set (nationalData ex_dp_flat). cells r ''median_listing_price'' = Some 7"
    by (simp add: s ex_national_flat_def mkRow_def)
  from calculateVariance_constant_zero [of 3]
    calculateVariance_constant_zero [of 2 ex_dp_flat "''Ohio''" ex_state "''median_listing_price''" 3
      "[202507, 202506, 202505]" 7]
  show ?thesis
    using c unfolding s ex_flat_returns by simp
qed


section \<open>Two return series, skipped independently\<close>

lemma pairReturn_keeps:
  "pairReturn (valueAt m c metric) (valueAt m p metric) =
     (if keepsPair m metric (c, p) then [returnOf m metric (c, p)] else [])"
  by (auto simp: pairReturn_def keepsPair_def returnOf_def truthy_def split: option.splits)

lemma returnsLoop_retained:
  "returnsLoop m metric ds = map (returnOf m metric) (retainedPairs m metric ds)"
proof (induction m metric ds rule: returnsLoop.induct)
  case (1 m metric currentDate previousDate rest)
  then show ?case by (simp add: retainedPairs_def pairReturn_keeps)
qed (simp_all add: retainedPairs_def)

lemma getReturns_retained:
  "getReturns ts metric ds = map (returnOf (dataMap ts) metric) (retainedPairs (dataMap ts) metric ds)"
  by (simp add: getReturns_def returnsLoop_retained)

lemma calculateBeta_Some_lengths:
  assumes "stateData dp g = Some ts" and "calculateBeta dp g metric w cd = Inr (Some b)"
  shows "length (getReturns ts metric (take w cd)) = length (getReturns (nationalData dp) metric (take w cd))
     \<and> 2 \<le> length (getReturns ts metric (take w cd))"
proof -
  have w: "w \<le> length cd"
  proof (rule ccontr)
    assume "\<not> w \<le> length cd"
    then have "calculateBeta dp g metric w cd = Inr None" by (simp add: calculateBeta_short)
    with assms(2) show False by simp
  qed
  from calculateBeta_long [OF assms(1) w refl refl, of metric] assms(2) show ?thesis
    by (auto split: if_splits)
qed

lemma ex12c_x: "getReturns ex12c_state ''median_listing_price'' ex12_dates
   = [2, - (2 / 3), 2, - (2 / 3), 2, - (2 / 3), 2, - (2 / 3), 2, - (2 / 3), 2]"
  by (simp add: getReturns_def dataMap_def ex12c_state_def seriesOf_def ex12_dates_def valueAt_def
      pairReturn_def truthy_def)

lemma ex12c_y: "getReturns ex12c_national ''median_listing_price'' ex12_dates
   = [1, - (1 / 2), 1, - (1 / 2), 1, - (1 / 2), 1, - (1 / 2), 1, - (1 / 2), 1]"
  by (simp add: getReturns_def dataMap_def ex12c_national_def seriesOf_def ex12_dates_def valueAt_def
      pairReturn_def truthy_def)

lemma ex12c_cov: "calculateCovariance [2, - (2 / 3), 2, - (2 / 3), 2, - (2 / 3), 2, - (2 / 3), 2, - (2 / 3), 2]
    [1, - (1 / 2), 1, - (1 / 2), 1, - (1 / 2), 1, - (1 / 2), 1, - (1 / 2), 1] = Fin (12 / 11)"
  by (simp add: calculateCovariance_def reduceSum_def upt_rec [of 0] upt_rec [of "Suc _"] eval_nat_numeral)

lemma ex12c_var: "calculateVariance
    [1, - (1 / 2), 1, - (1 / 2), 1, - (1 / 2), 1, - (1 / 2), 1, - (1 / 2), 1] = Fin (27 / 44)"
  by (simp add: calculateVariance_def reduceSum_def upt_rec [of 0] upt_rec [of "Suc _"] eval_nat_numeral power2_eq_square)

lemma ex12c_beta:
  "calculateBeta ex12c_dp ''Ohio'' ''median_listing_price'' 12 ex12_dates = Inr (Some (Fin (16 / 9)))"
proof -
  have n: "nationalData ex12c_dp = ex12c_national" and s: "stateData ex12c_dp ''Ohio'' = Some ex12c_state"
    by (simp_all add: ex12c_dp_def)
  have t: "take 12 ex12_dates = ex12_dates" by (simp add: ex12_dates_def)
  have l: "\<not> length ex12_dates < 12" by (simp add: ex12_dates_def)
  show ?thesis
    by (simp add: calculateBeta_def Let_def l t n s ex12c_x ex12c_y ex12c_cov ex12c_var)
qed

lemma ex12g_x: "getReturns ex12g_state ''median_listing_price'' ex12_dates
   = [- (2 / 3), 2, - (2 / 3), 2, - (2 / 3), 2, - (2 / 3), 2, - (2 / 3), 2]"
  by (simp add: getReturns_def dataMap_def ex12g_state_def seriesOf_def ex12_dates_def valueAt_def
      pairReturn_def truthy_def)

lemma ex12c_retained: "retainedPairs (dataMap ex12c_national) ''median_listing_price'' ex12_dates
   = datePairs ex12_dates"
  by (simp add: retainedPairs_def keepsPair_def dataMap_def ex12c_national_def seriesOf_def
      ex12_dates_def valueAt_def)

lemma ex12c_retained_state: "retainedPairs (dataMap ex12c_state) ''median_listing_price'' ex12_dates
   = datePairs ex12_dates"
  by (simp add: retainedPairs_def keepsPair_def dataMap_def ex12c_state_def seriesOf_def
      ex12_dates_def valueAt_def)

text \<open>
  Claim C2, as stated, fails: \<open>getReturns\<close> is called once for the state and once for the
  nation, and each call skips a pair by its own series only. Here the state has no value
  in the newest month and the national series is complete: the newest pair still
  contributes a return to the national series, the two series have 10 and 11 returns,
  and \<open>calculateBeta\<close> answers the difference in length with \<open>null\<close>.
\<close>

theorem getReturns_one_sided_gap_counterexample:
  "valueAt (dataMap ex12g_state) 202412 ''median_listing_price'' = None
   \<and> retainedPairs (dataMap (nationalData ex12g_dp)) ''median_listing_price'' (take 12 ex12_dates) ! 0
       = (202412, 202411)
   \<and> length (getReturns ex12g_state ''median_listing_price'' (take 12 ex12_dates)) = 10
   \<and> length (getReturns (nationalData ex12g_dp) ''median_listing_price'' (take 12 ex12_dates)) = 11
   \<and> calculateBeta ex12g_dp ''Ohio'' ''median_listing_price'' 12 ex12_dates = Inr None"
proof -
  have n: "nationalData ex12g_dp = ex12c_national" and s: "stateData ex12g_dp ''Ohio'' = Some ex12g_state"
    by (simp_all add: ex12g_dp_def)
  have t: "take 12 ex12_dates = ex12_dates" by (simp add: ex12_dates_def)
  have l: "\<not> length ex12_dates < 12" by (simp add: ex12_dates_def)
  have v: "valueAt (dataMap ex12g_state) 202412 ''median_listing_price'' = None"
    by (simp add: dataMap_def ex12g_state_def seriesOf_def valueAt_def)
  have b: "calculateBeta ex12g_dp ''Ohio'' ''median_listing_price'' 12 ex12_dates = Inr None"
    by (simp add: calculateBeta_def Let_def l t n s ex12g_x ex12c_y)
  have r: "datePairs ex12_dates ! 0 = (202412, 202411)" by (simp add: ex12_dates_def)
  show ?thesis
    unfolding n t ex12g_x ex12c_y ex12c_retained using v b r by simp
qed

text \<open>
  Claim C2, amended. For every series, metric and list of dates, \<open>getReturns\<close> keeps
  exactly the consecutive pairs at which that series has both values and neither is
  zero, and returns their returns in order; a pair with a gap in one series contributes
  no return to that series. \<open>calculateBeta\<close> computes a beta only from two return
  series of the same length, at least 2. Whenever the two series keep the same pairs,
  they have the same length and the \<open>i\<close>-th return of each belongs to the \<open>i\<close>-th kept
  pair.
\<close>

theorem getReturns_skips_per_series:
  "getReturns ts metric ds = map (returnOf (dataMap ts) metric) (retainedPairs (dataMap ts) metric ds)
   \<and> (stateData dp g = Some ts \<and> calculateBeta dp g metric w cd = Inr (Some b) \<longrightarrow>
        length (getReturns ts metric (take w cd))
          = length (getReturns (nationalData dp) metric (take w cd))
        \<and> 2 \<le> length (getReturns ts metric (take w cd)))
   \<and> (retainedPairs (dataMap ts) metric ds = retainedPairs (dataMap ns) metric ds \<longrightarrow>
        length (getReturns ts metric ds) = length (getReturns ns metric ds)
        \<and> (\<forall>i < length (retainedPairs (dataMap ts) metric ds).
              getReturns ts metric ds ! i
                = returnOf (dataMap ts) metric (retainedPairs (dataMap ts) metric ds ! i)
              \<and> getReturns ns metric ds ! i
                = returnOf (dataMap ns) metric (retainedPairs (dataMap ts) metric ds ! i)))"
proof (intro conjI impI allI)
  show "getReturns ts metric ds = map (returnOf (dataMap ts) metric) (retainedPairs (dataMap ts) metric ds)"
    by (rule getReturns_retained)
next
  assume a: "stateData dp g = Some ts \<and> calculateBeta dp g metric w cd = Inr (Some b)"
  then show "length (getReturns ts metric (take w cd))
          = length (getReturns (nationalData dp) metric (take w cd))"
    and "2 \<le> length (getReturns ts metric (take w cd))"
    using calculateBeta_Some_lengths by blast+
next
  assume e: "retainedPairs (dataMap ts) metric ds = retainedPairs (dataMap ns) metric ds"
  show "length (getReturns ts metric ds) = length (getReturns ns metric ds)"
    by (simp add: getReturns_retained e)
  fix i assume i: "i < length (retainedPairs (dataMap ts) metric ds)"
  then show "getReturns ts metric ds ! i
                = returnOf (dataMap ts) metric (retainedPairs (dataMap ts) metric ds ! i)"
    by (simp add: getReturns_retained)
  from i e show "getReturns ns metric ds ! i
                = returnOf (dataMap ns) metric (retainedPairs (dataMap ts) metric ds ! i)"
    by (simp add: getReturns_retained)
qed

theorem getReturns_skips_per_series_witness:
  "retainedPairs (dataMap ex12c_state) ''median_listing_price'' ex12_dates
     = retainedPairs (dataMap ex12c_national) ''median_listing_price'' ex12_dates
   \<and> length (getReturns ex12c_state ''median_listing_price'' ex12_dates) = 11
   \<and> length (getReturns ex12c_national ''median_listing_price'' ex12_dates) = 11
   \<and> getReturns ex12c_state ''median_listing_price'' ex12_dates ! 0
       = returnOf (dataMap ex12c_state) ''median_listing_price'' (202412, 202411)
   \<and> getReturns ex12c_national ''median_listing_price'' ex12_dates ! 0
       = returnOf (dataMap ex12c_national) ''median_listing_price'' (202412, 202411)"
proof -
  have e: "retainedPairs (dataMap ex12c_state) ''median_listing_price'' ex12_dates
     = retainedPairs (dataMap ex12c_national) ''median_listing_price'' ex12_dates"
    by (simp add: ex12c_retained ex12c_retained_state)
  have s: "stateData ex12c_dp ''Ohio'' = Some ex12c_state" "nationalData ex12c_dp = ex12c_national"
    by (simp_all add: ex12c_dp_def)
  have t: "take 12 ex12_dates = ex12_dates" by (simp add: ex12_dates_def)
  have d: "datePairs ex12_dates ! 0 = (202412, 202411)" "0 < length (datePairs ex12_dates)"
    by (simp_all add: ex12_dates_def)
  from getReturns_skips_per_series [of ex12c_state "''median_listing_price''" ex12_dates ex12c_dp "''Ohio''" 12 ex12_dates
      "Fin (16 / 9)" ex12c_national] e s ex12c_beta d
  show ?thesis
    unfolding ex12c_retained_state ex12c_retained t by (auto simp: ex12c_x ex12c_y)
qed

text \<open>
  What the amended claim leaves out: two series that skip different pairs can still
  keep the same number of returns, and the comparison of lengths in \<open>calculateBeta\<close>
  does not see it. Here the state skips the oldest pair and the nation the newest pair,
  both keep ten returns, and the covariance multiplies the state's return of one pair
  with the nation's return of the next pair. The beta comes out as \<open>-1\<close>, although the
  two series agree wherever both have a value; the nine pairs that both series keep,
  which the specification's step 4 asks for, give \<open>1\<close>.
\<close>

lemma ex12_cd: "getCommonDates ex12_state ex12_national = ex12_dates"
  by (simp add: getCommonDates_def setOrder_def ex12_state_def ex12_national_def seriesOf_def ex12_dates_def)

lemma ex12_x: "getReturns ex12_state ''median_listing_price'' ex12_dates
   = [1, - (1 / 2), 1, - (1 / 2), 1, - (1 / 2), 1, - (1 / 2), 1, - (1 / 2)]"
  by (simp add: getReturns_def dataMap_def ex12_state_def seriesOf_def ex12_dates_def valueAt_def
      pairReturn_def truthy_def)

lemma ex12_y: "getReturns ex12_national ''median_listing_price'' ex12_dates
   = [- (1 / 2), 1, - (1 / 2), 1, - (1 / 2), 1, - (1 / 2), 1, - (1 / 2), 1]"
  by (simp add: getReturns_def dataMap_def ex12_national_def seriesOf_def ex12_dates_def valueAt_def
      pairReturn_def truthy_def)

lemma ex12_cov: "calculateCovariance [1, - (1 / 2), 1, - (1 / 2), 1, - (1 / 2), 1, - (1 / 2), 1, - (1 / 2)]
    [- (1 / 2), 1, - (1 / 2), 1, - (1 / 2), 1, - (1 / 2), 1, - (1 / 2), 1] = Fin (- (5 / 8))"
  by (simp add: calculateCovariance_def reduceSum_def upt_rec [of 0] upt_rec [of "Suc _"] eval_nat_numeral)

lemma ex12_var: "calculateVariance 
    [- (1 / 2), 1, - (1 / 2), 1, - (1 / 2), 1, - (1 / 2), 1, - (1 / 2), 1] = Fin (5 / 8)"
  by (simp add: calculateVariance_def reduceSum_def upt_rec [of 0] upt_rec [of "Suc _"] eval_nat_numeral power2_eq_square)

lemma ex12_aligned:
  "spec_alignedReturns (dataMap ex12_state) (dataMap ex12_national) ''median_listing_price'' ex12_dates
   = [(- (1 / 2), - (1 / 2)), (1, 1), (- (1 / 2), - (1 / 2)), (1, 1), (- (1 / 2), - (1 / 2)), (1, 1),
      (- (1 / 2), - (1 / 2)), (1, 1), (- (1 / 2), - (1 / 2))]"
  by (simp add: dataMap_def ex12_state_def ex12_national_def seriesOf_def ex12_dates_def valueAt_def
      spec_return_def)

lemma calculateBeta_equal_lengths_misaligned:
  "getCommonDates ex12_state (nationalData ex12_dp) = ex12_dates
   \<and> getReturns ex12_state ''median_listing_price'' (take 12 ex12_dates)
       = [1, - (1 / 2), 1, - (1 / 2), 1, - (1 / 2), 1, - (1 / 2), 1, - (1 / 2)]
   \<and> getReturns (nationalData ex12_dp) ''median_listing_price'' (take 12 ex12_dates)
       = [- (1 / 2), 1, - (1 / 2), 1, - (1 / 2), 1, - (1 / 2), 1, - (1 / 2), 1]
   \<and> map fst (spec_alignedReturns (dataMap ex12_state) (dataMap (nationalData ex12_dp))
         ''median_listing_price'' (take 12 ex12_dates))
       = [- (1 / 2), 1, - (1 / 2), 1, - (1 / 2), 1, - (1 / 2), 1, - (1 / 2)]
   \<and> map snd (spec_alignedReturns (dataMap ex12_state) (dataMap (nationalData ex12_dp))
         ''median_listing_price'' (take 12 ex12_dates))
       = [- (1 / 2), 1, - (1 / 2), 1, - (1 / 2), 1, - (1 / 2), 1, - (1 / 2)]
   \<and> calculateBeta ex12_dp ''Ohio'' ''median_listing_price'' 12 ex12_dates = Inr (Some (Fin (- 1)))
   \<and> js_div
        (calculateCovariance
          [- (1 / 2), 1, - (1 / 2), 1, - (1 / 2), 1, - (1 / 2), 1, - (1 / 2)]
          [- (1 / 2), 1, - (1 / 2), 1, - (1 / 2), 1, - (1 / 2), 1, - (1 / 2)])
        (calculateVariance [- (1 / 2), 1, - (1 / 2), 1, - (1 / 2), 1, - (1 / 2), 1, - (1 / 2)])
       = Fin 1"
proof -
  have n: "nationalData ex12_dp = ex12_national" and s: "stateData ex12_dp ''Ohio'' = Some ex12_state"
    by (simp_all add: ex12_dp_def)
  have t: "take 12 ex12_dates = ex12_dates" by (simp add: ex12_dates_def)
  have l: "\<not> length ex12_dates < 12" by (simp add: ex12_dates_def)
  have b: "calculateBeta ex12_dp ''Ohio'' ''median_listing_price'' 12 ex12_dates = Inr (Some (Fin (- 1)))"
    by (simp add: calculateBeta_def Let_def l t n s ex12_x ex12_y ex12_cov ex12_var)
  have a: "js_div
        (calculateCovariance
          [- (1 / 2), 1, - (1 / 2), 1, - (1 / 2), 1, - (1 / 2), 1, - (1 / 2)]
          [- (1 / 2), 1, - (1 / 2), 1, - (1 / 2), 1, - (1 / 2), 1, - (1 / 2)])
        (calculateVariance [- (1 / 2), 1, - (1 / 2), 1, - (1 / 2), 1, - (1 / 2), 1, - (1 / 2)])
       = Fin 1"
    by (simp add: calculateCovariance_def calculateVariance_def reduceSum_def upt_rec [of 0]
        upt_rec [of "Suc _"] eval_nat_numeral power2_eq_square)
  show ?thesis
    unfolding n t ex12_cd ex12_x ex12_y ex12_aligned using a b by simp
qed


section \<open>Scaling a series\<close>

lemma dataMap_fold_map:
  assumes "\<And>r. month_date_yyyymm (f r) = month_date_yyyymm r"
    and "m0' d = map_option f (m0 d)"
  shows "fold (\<lambda>r m. m(month_date_yyyymm r \<mapsto> r)) (map f ts) m0' d
     = map_option f (fold (\<lambda>r m. m(month_date_yyyymm r \<mapsto> r)) ts m0 d)"
  using assms(2)
proof (induction ts arbitrary: m0 m0')
  case Nil
  then show ?case by simp
next
  case (Cons a ts)
  have step: "(m0'(month_date_yyyymm (f a) \<mapsto> f a)) d
      = map_option f ((m0(month_date_yyyymm a \<mapsto> a)) d)"
    using Cons.prems by (simp add: assms(1))
  have "fold (\<lambda>r m. m(month_date_yyyymm r \<mapsto> r)) (map f (a # ts)) m0' d
      = fold (\<lambda>r m. m(month_date_yyyymm r \<mapsto> r)) (map f ts) (m0'(month_date_yyyymm (f a) \<mapsto> f a)) d"
    by (simp only: list.map fold_simps o_apply)
  also have "\<dots> = map_option f
      (fold (\<lambda>r m. m(month_date_yyyymm r \<mapsto> r)) ts (m0(month_date_yyyymm a \<mapsto> a)) d)"
    by (rule Cons.IH [of "m0'(month_date_yyyymm (f a) \<mapsto> f a)" "m0(month_date_yyyymm a \<mapsto> a)", OF step])
  also have "\<dots> = map_option f (fold (\<lambda>r m. m(month_date_yyyymm r \<mapsto> r)) (a # ts) m0 d)"
    by (simp only: fold_simps o_apply)
  finally show ?case .
qed

lemma dataMap_map:
  assumes "\<And>r. month_date_yyyymm (f r) = month_date_yyyymm r"
  shows "dataMap (map f ts) d = map_option f (dataMap ts d)"
  unfolding dataMap_def by (rule dataMap_fold_map [OF assms]) simp

lemma valueAt_scale:
  "valueAt (dataMap (map (scaleMetric k m) ts)) d m = map_option (\<lambda>v. k * v) (valueAt (dataMap ts) d m)"
proof -
  have "dataMap (map (scaleMetric k m) ts) d = map_option (scaleMetric k m) (dataMap ts d)"
    by (rule dataMap_map) (simp add: scaleMetric_def)
  then show ?thesis
    by (cases "dataMap ts d") (simp_all add: valueAt_def scaleMetric_def)
qed

lemma pairReturn_scale:
  assumes "k \<noteq> 0"
  shows "pairReturn (map_option (\<lambda>v. k * v) a) (map_option (\<lambda>v. k * v) b) = pairReturn a b"
proof (cases a)
  case None
  then show ?thesis by (simp add: pairReturn_def truthy_def)
next
  case (Some c)
  show ?thesis
  proof (cases b)
    case None
    then show ?thesis by (simp add: pairReturn_def truthy_def)
  next
    case (Some p)
    have "(k * c - k * p) / (k * p) = (c - p) / p"
      using assms by (simp add: right_diff_distrib [symmetric])
    with \<open>a = Some c\<close> Some assms show ?thesis
      by (simp add: pairReturn_def truthy_def)
  qed
qed

lemma returnsLoop_scale:
  assumes "k \<noteq> 0"
  shows "returnsLoop (dataMap (map (scaleMetric k m) ts)) m ds = returnsLoop (dataMap ts) m ds"
proof (induction ds rule: induct_list012)
  case (3 d1 d2 ds)
  then show ?case by (simp add: valueAt_scale pairReturn_scale [OF assms])
qed simp_all

lemma getReturns_scale:
  "k \<noteq> 0 \<Longrightarrow> getReturns (map (scaleMetric k m) ts) m ds = getReturns ts m ds"
  by (simp add: getReturns_def returnsLoop_scale)

lemma calculateBeta_scale:
  assumes "k \<noteq> 0" and "stateData dp g = Some ts"
  shows "calculateBeta (dp\<lparr>stateData := (stateData dp)(g \<mapsto> map (scaleMetric k m) ts)\<rparr>) g m w cd
       = calculateBeta dp g m w cd"
    and "calculateBeta (dp\<lparr>nationalData := map (scaleMetric k m) (nationalData dp)\<rparr>) g m w cd
       = calculateBeta dp g m w cd"
    and "calculateBeta (dp\<lparr>stateData := (stateData dp)(g \<mapsto> map (scaleMetric k m) ts),
                           nationalData := map (scaleMetric k m) (nationalData dp)\<rparr>) g m w cd
       = calculateBeta dp g m w cd"
  using assms(2) by (simp_all add: calculateBeta_def Let_def getReturns_scale [OF assms(1)])

text \<open>
  Claim C5, as stated, fails: a return is a fractional change, so multiplying every value
  of a series by a constant does not change its returns. With every local value doubled
  the beta is still \<open>16/9\<close> and not \<open>32/9\<close>; with every national value doubled it is
  still \<open>16/9\<close> and not \<open>8/9\<close>.
\<close>

theorem calculateBeta_scaled_values_counterexample:
  "calculateBeta ex12c_dp ''Ohio'' ''median_listing_price'' 12 ex12_dates = Inr (Some (Fin (16 / 9)))
   \<and> calculateBeta
        (ex12c_dp\<lparr>stateData := (stateData ex12c_dp)(''Ohio'' \<mapsto>
           map (scaleMetric 2 ''median_listing_price'') ex12c_state)\<rparr>)
        ''Ohio'' ''median_listing_price'' 12 ex12_dates \<noteq> Inr (Some (Fin (2 * (16 / 9))))
   \<and> calculateBeta
        (ex12c_dp\<lparr>nationalData := map (scaleMetric 2 ''median_listing_price'') (nationalData ex12c_dp)\<rparr>)
        ''Ohio'' ''median_listing_price'' 12 ex12_dates \<noteq> Inr (Some (Fin ((16 / 9) / 2)))"
proof -
  have s: "stateData ex12c_dp ''Ohio'' = Some ex12c_state" by (simp add: ex12c_dp_def)
  have k: "(2::real) \<noteq> 0" by simp
  show ?thesis
    unfolding calculateBeta_scale [OF k s] ex12c_beta by simp
qed

text \<open>
  Claim C5, amended. For a geography that is a key of \<open>stateData\<close>, multiplying every
  value of the local metric series by a positive constant \<open>k\<close>, or every value of the
  national metric series, or both, leaves the result of \<open>calculateBeta\<close> unchanged.
\<close>

theorem calculateBeta_invariant_under_scaling:
  "0 < k \<and> stateData dp g = Some ts \<longrightarrow>
     calculateBeta (dp\<lparr>stateData := (stateData dp)(g \<mapsto> map (scaleMetric k m) ts)\<rparr>) g m w cd
       = calculateBeta dp g m w cd
     \<and> calculateBeta (dp\<lparr>nationalData := map (scaleMetric k m) (nationalData dp)\<rparr>) g m w cd
       = calculateBeta dp g m w cd
     \<and> calculateBeta (dp\<lparr>stateData := (stateData dp)(g \<mapsto> map (scaleMetric k m) ts),
                           nationalData := map (scaleMetric k m) (nationalData dp)\<rparr>) g m w cd
       = calculateBeta dp g m w cd"
  using calculateBeta_scale [of k dp g ts m w cd] by simp

theorem calculateBeta_invariant_under_scaling_witness:
  "(0::real) < 2 \<and> stateData ex12c_dp ''Ohio'' = Some ex12c_state
   \<and> calculateBeta
        (ex12c_dp\<lparr>stateData := (stateData ex12c_dp)(''Ohio'' \<mapsto>
           map (scaleMetric 2 ''median_listing_price'') ex12c_state)\<rparr>)
        ''Ohio'' ''median_listing_price'' 12 ex12_dates = Inr (Some (Fin (16 / 9)))
   \<and> calculateBeta
        (ex12c_dp\<lparr>nationalData := map (scaleMetric 2 ''median_listing_price'') (nationalData ex12c_dp)\<rparr>)
        ''Ohio'' ''median_listing_price'' 12 ex12_dates = Inr (Some (Fin (16 / 9)))
   \<and> calculateBeta
        (ex12c_dp\<lparr>stateData := (stateData ex12c_dp)(''Ohio'' \<mapsto>
           map (scaleMetric 2 ''median_listing_price'') ex12c_state),
         nationalData := map (scaleMetric 2 ''median_listing_price'') (nationalData ex12c_dp)\<rparr>)
        ''Ohio'' ''median_listing_price'' 12 ex12_dates = Inr (Some (Fin (16 / 9)))"
proof -
  have s: "stateData ex12c_dp ''Ohio'' = Some ex12c_state" by (simp add: ex12c_dp_def)
  from calculateBeta_invariant_under_scaling [of 2 ex12c_dp "''Ohio''" ex12c_state "''median_listing_price''" 12 ex12_dates]
  show ?thesis
    using s by (simp add: ex12c_beta)
qed


section \<open>Month-over-month and year-over-year change\<close>

lemma sortedData_props:
  "mset (sort_key (\<lambda>r. - month_date_yyyymm r) ts) = mset ts"
  "newestFirst (sort_key (\<lambda>r. - month_date_yyyymm r) ts)"
  "newestFirst ts \<Longrightarrow> sort_key (\<lambda>r. - month_date_yyyymm r) ts = ts"
proof -
  show "mset (sort_key (\<lambda>r. - month_date_yyyymm r) ts) = mset ts" by simp
  have "sorted (map (\<lambda>r. - month_date_yyyymm r) (sort_key (\<lambda>r. - month_date_yyyymm r) ts))"
    by (rule sorted_sort_key)
  then show "newestFirst (sort_key (\<lambda>r. - month_date_yyyymm r) ts)"
    by (simp add: newestFirst_def sorted_map)
  assume "newestFirst ts"
  then have "sorted (map (\<lambda>r. - month_date_yyyymm r) ts)"
    by (simp add: newestFirst_def sorted_map)
  then show "sort_key (\<lambda>r. - month_date_yyyymm r) ts = ts"
    by (rule sort_key_id_if_sorted)
qed

lemma calculateChanges_sorted:
  assumes "2 \<le> length ts"
  shows "calculateChanges (Some ts) m =
     \<lparr>mom = quotientChange (cells (sort_key (\<lambda>r. - month_date_yyyymm r) ts ! 0) m)
              (cells (sort_key (\<lambda>r. - month_date_yyyymm r) ts ! 1) m),
      yoy = (if 13 \<le> length ts
             then quotientChange (cells (sort_key (\<lambda>r. - month_date_yyyymm r) ts ! 0) m)
                    (cells (sort_key (\<lambda>r. - month_date_yyyymm r) ts ! 12) m)
             else 0)\<rparr>"
proof -
  let ?s = "sort_key (\<lambda>r. - month_date_yyyymm r) ts"
  have m0: "metricAt ?s 0 m = cells (?s ! 0) m" and m1: "metricAt ?s (Suc 0) m = cells (?s ! Suc 0) m"
    using assms by (auto simp add: metricAt_def)
  have m12: "13 \<le> length ts \<Longrightarrow> metricAt ?s 12 m = cells (?s ! 12) m"
    by (simp add: metricAt_def)
  have l: "\<not> length ts < 2" using assms by simp
  show ?thesis
  proof (cases "13 \<le> length ts")
    case True
    with assms l show ?thesis
      by (auto simp: calculateChanges_def Let_def m0 m1 m12 truthy_def quotientChange_def
          split: option.splits)
  next
    case False
    with assms l show ?thesis
      by (auto simp: calculateChanges_def Let_def m0 m1 truthy_def quotientChange_def
          split: option.splits)
  qed
qed

text \<open>
  Claim C7, as stated, fails: a numerator that is present but zero also skips the
  division. With a newest count of \<open>0\<close> after a count of \<open>5\<close> the quotient formula gives
  \<open>0 / 5 - 1 = -1\<close>, and \<open>calculateChanges\<close> returns \<open>mom = 0\<close>.
\<close>

theorem calculateChanges_zero_numerator_counterexample:
  "cells (ex_zero_current ! 0) ''pending_listing_count'' = Some 0
   \<and> cells (ex_zero_current ! 1) ''pending_listing_count'' = Some 5
   \<and> mom (calculateChanges (Some ex_zero_current) ''pending_listing_count'') = 0
   \<and> (0::real) / 5 - 1 = - 1"
  by (simp add: calculateChanges_def ex_zero_current_def mkRow_def metricAt_def truthy_def)

text \<open>
  Claim C7, amended. Let \<open>s\<close> be the series sorted newest first (the series itself when
  it is already in that order). For a series of at least two observations, \<open>mom\<close> is
  \<open>(current / previous) - 1\<close> with \<open>current\<close> the value of \<open>s[0]\<close> and \<open>previous\<close> the value of
  \<open>s[1]\<close>; \<open>yoy\<close> is \<open>(current / value twelve positions back) - 1\<close> and is computed only
  when the series has at least 13 observations; and whenever the denominator or the
  numerator is missing or zero the division is skipped and the result is \<open>0\<close>. A shorter
  or undefined series gives \<open>mom = 0\<close> and \<open>yoy = 0\<close>.
\<close>

theorem calculateChanges_quotient_or_zero:
  "(2 \<le> length ts \<longrightarrow>
      (\<exists>s. mset s = mset ts \<and> newestFirst s \<and> (newestFirst ts \<longrightarrow> s = ts)
         \<and> mom (calculateChanges (Some ts) m) = quotientChange (cells (s ! 0) m) (cells (s ! 1) m)
         \<and> yoy (calculateChanges (Some ts) m) =
             (if 13 \<le> length ts then quotientChange (cells (s ! 0) m) (cells (s ! 12) m) else 0)))
   \<and> (length ts < 2 \<longrightarrow> calculateChanges (Some ts) m = \<lparr>mom = 0, yoy = 0\<rparr>)
   \<and> calculateChanges None m = \<lparr>mom = 0, yoy = 0\<rparr>"
proof (intro conjI impI)
  assume l: "2 \<le> length ts"
  show "\<exists>s. mset s = mset ts \<and> newestFirst s \<and> (newestFirst ts \<longrightarrow> s = ts)
         \<and> mom (calculateChanges (Some ts) m) = quotientChange (cells (s ! 0) m) (cells (s ! 1) m)
         \<and> yoy (calculateChanges (Some ts) m) =
             (if 13 \<le> length ts then quotientChange (cells (s ! 0) m) (cells (s ! 12) m) else 0)"
    by (rule exI [of _ "sort_key (\<lambda>r. - month_date_yyyymm r) ts"])
      (simp add: calculateChanges_sorted [OF l] sortedData_props)
next
  assume "length ts < 2"
  then show "calculateChanges (Some ts) m = \<lparr>mom = 0, yoy = 0\<rparr>"
    by (simp add: calculateChanges_def)
next
  show "calculateChanges None m = \<lparr>mom = 0, yoy = 0\<rparr>"
    by (simp add: calculateChanges_def)
qed

theorem calculateChanges_quotient_or_zero_witness:
  "mom (calculateChanges (Some ex13_state) ''median_listing_price'') = 1 / 10
   \<and> yoy (calculateChanges (Some ex13_state) ''median_listing_price'') = 21 / 100"
proof -
  have l: "2 \<le> length ex13_state" "13 \<le> length ex13_state"
    by (simp_all add: ex13_state_def seriesOf_def)
  have n: "newestFirst ex13_state"
    by (simp add: newestFirst_def ex13_state_def seriesOf_def)
  from calculateChanges_quotient_or_zero [of ex13_state "''median_listing_price''"] l n
  have "mom (calculateChanges (Some ex13_state) ''median_listing_price'')
      = quotientChange (cells (ex13_state ! 0) ''median_listing_price'')
          (cells (ex13_state ! 1) ''median_listing_price'')
    \<and> yoy (calculateChanges (Some ex13_state) ''median_listing_price'')
      = quotientChange (cells (ex13_state ! 0) ''median_listing_price'')
          (cells (ex13_state ! 12) ''median_listing_price'')"
    by auto
  moreover have "cells (ex13_state ! 0) ''median_listing_price'' = Some 121"
    "cells (ex13_state ! 1) ''median_listing_price'' = Some 110"
    "cells (ex13_state ! 12) ''median_listing_price'' = Some 100"
    by (simp_all add: ex13_state_def seriesOf_def)
  ultimately show ?thesis by (simp add: quotientChange_def)
qed

section \<open>The token rule of the reconciler\<close>

lemma includesStr_length: "includesStr s t \<Longrightarrow> length t \<le> length s"
proof -
  assume "includesStr s t"
  then obtain i where "take (length t) (drop i s) = t"
    by (auto simp: includesStr_def list_ex_iff)
  then have "length t = length (take (length t) (drop i s))" by simp
  then show ?thesis by simp
qed

lemma includesStr_refl: "includesStr s s"
  unfolding includesStr_def list_ex_iff by (rule bexI [of _ 0]) simp_all

lemma cityMatch_iff:
  "cityMatch city cbsaCity \<longleftrightarrow>
     4 \<le> length city \<and> 4 \<le> length cbsaCity
     \<and> (includesStr city cbsaCity \<or> includesStr cbsaCity city)"
proof (cases "length city < 4 \<or> length cbsaCity < 4")
  case True
  then show ?thesis by (auto simp: cityMatch_def)
next
  case False
  have a: "includesStr city cbsaCity \<Longrightarrow>
      real (min (length city) (length cbsaCity)) * 0.8 \<le> real (length cbsaCity)"
    by (drule includesStr_length) (simp add: min_def)
  have b: "includesStr cbsaCity city \<Longrightarrow>
      real (min (length city) (length cbsaCity)) * 0.8 \<le> real (length city)"
    by (drule includesStr_length) (simp add: min_def)
  from False a b includesStr_refl [of city] show ?thesis
    by (auto simp: cityMatch_def Let_def)
qed

text \<open>
  Claim C8 does not hold of the code. \<open>cityMatch\<close> compares the contained token with
  \<open>minLength * 0.8\<close>, and the contained token is the shorter one, so the test always
  passes (\<open>cityMatch_iff\<close>): two tokens of at least four characters match as soon as one
  contains the other. \<open>portland\<close> has 8 characters and \<open>south portland\<close> has 14, which is
  57%, and they match; with that second match the label of Portland in Maine reaches
  the score 80 against the metro area of Portland in Oregon and is mapped to it.
\<close>

theorem cityMatch_accepts_short_contained_token:
  "cityMatch ''south portland'' ''portland''
   \<and> \<not> spec_tokenMatch ''south portland'' ''portland''
   \<and> extractCityNames ''Portland-South Portland, ME'' = [''portland'', ''south portland'']
   \<and> extractCityNames ''Portland-Vancouver-Hillsboro, OR-WA Metro Area''
       = [''portland'', ''vancouver'', ''hillsboro'', ''wa'']
   \<and> scoreOf ''Portland-South Portland, ME'' ''Portland-Vancouver-Hillsboro, OR-WA Metro Area'' = 80
   \<and> createMetroNameMapping [''Portland-South Portland, ME'']
         [''Portland-Vancouver-Hillsboro, OR-WA Metro Area''] ''Portland-South Portland, ME''
       = Some ''Portland-Vancouver-Hillsboro, OR-WA Metro Area''"
  by code_simp


section \<open>The override table comes first\<close>

lemma hardcoded_nonempty: "map_of hardcodedMappings label = Some canonical \<Longrightarrow> canonical \<noteq> []"
proof -
  assume "map_of hardcodedMappings label = Some canonical"
  then have "(label, canonical) \<in> set hardcodedMappings" by (rule map_of_SomeD)
  moreover have "list_all (\<lambda>kv. snd kv \<noteq> []) hardcodedMappings" by code_simp
  ultimately show ?thesis by (auto simp: list_all_iff)
qed

lemma hardcodedStep_other: "n \<noteq> label \<Longrightarrow> hardcodedStep n m label = m label"
  by (simp add: hardcodedStep_def)

lemma hardcodedStep_same:
  "map_of hardcodedMappings label = Some canonical \<Longrightarrow> hardcodedStep label m label = Some canonical"
  by (frule hardcoded_nonempty) (simp add: hardcodedStep_def truthyString_def)

lemma fold_hardcodedStep:
  assumes "map_of hardcodedMappings label = Some canonical" and "label \<in> set csvNames"
  shows "fold hardcodedStep csvNames m label = Some canonical"
  using assms(2)
proof (induction csvNames rule: rev_induct)
  case Nil
  then show ?case by simp
next
  case (snoc n ns)
  show ?case
  proof (cases "n = label")
    case True
    then show ?thesis by (simp add: hardcodedStep_same [OF assms(1)])
  next
    case False
    with snoc show ?thesis by (simp add: hardcodedStep_other)
  qed
qed

lemma fuzzyStep_keeps:
  "truthyString (m label) \<Longrightarrow> fuzzyStep cbsaNames n m label = m label"
  by (cases "n = label") (simp_all add: fuzzyStep_def Let_def)

lemma fuzzyStep_skips:
  "truthyString (m label) \<Longrightarrow> fuzzyStep cbsaNames label m = m"
  by (simp add: fuzzyStep_def)

lemma fold_fuzzyStep_keeps:
  "truthyString (m label) \<Longrightarrow> fold (fuzzyStep cbsaNames) ns m label = m label"
proof (induction ns rule: rev_induct)
  case Nil
  show ?case by simp
next
  case (snoc n ns)
  then show ?case by (simp add: fuzzyStep_keeps)
qed

text \<open>
  Claim C9. For every source label that is a key of the override table and occurs among
  the labels to reconcile, the result maps the label to the override's canonical label,
  whatever the canonical candidates are. The label is mapped to it before and after
  every iteration of the second loop, and the iteration for a label so mapped returns at
  once, so the scorer is not applied to it.
\<close>

theorem createMetroNameMapping_override_first:
  "map_of hardcodedMappings label = Some canonical \<and> label \<in> set csvNames \<longrightarrow>
     createMetroNameMapping csvNames cbsaNames label = Some canonical
     \<and> (\<forall>n. fold (fuzzyStep cbsaNames) (take n csvNames) (fold hardcodedStep csvNames Map.empty) label
            = Some canonical)
     \<and> (\<forall>mapping. mapping label = Some canonical \<longrightarrow> fuzzyStep cbsaNames label mapping = mapping)"
proof (intro impI conjI allI)
  assume a: "map_of hardcodedMappings label = Some canonical \<and> label \<in> set csvNames"
  then have h: "fold hardcodedStep csvNames Map.empty label = Some canonical"
    using fold_hardcodedStep by blast
  from a have ne: "canonical \<noteq> []" using hardcoded_nonempty by blast
  with h have t: "truthyString (fold hardcodedStep csvNames Map.empty label)"
    by (simp add: truthyString_def)
  have k: "fold (fuzzyStep cbsaNames) ns (fold hardcodedStep csvNames Map.empty) label = Some canonical"
    for ns
    using fold_fuzzyStep_keeps [of "fold hardcodedStep csvNames Map.empty" label cbsaNames ns] t h
    by simp
  show "createMetroNameMapping csvNames cbsaNames label = Some canonical"
    by (simp add: createMetroNameMapping_def k)
  show "fold (fuzzyStep cbsaNames) (take n csvNames) (fold hardcodedStep csvNames Map.empty) label
            = Some canonical" for n
    by (rule k)
  show "fuzzyStep cbsaNames label mapping = mapping" if "mapping label = Some canonical" for mapping
    using that ne by (simp add: fuzzyStep_skips truthyString_def)
qed

theorem createMetroNameMapping_override_first_witness:
  "map_of hardcodedMappings ''Birmingham-Hoover, AL'' = Some ''Birmingham, AL Metro Area''
   \<and> scoreOf ''Birmingham-Hoover, AL'' ''Birmingham-Hoover, AL Metro Area'' = 80
   \<and> scoreOf ''Birmingham-Hoover, AL'' ''Birmingham, AL Metro Area'' = 65
   \<and> createMetroNameMapping [''Birmingham-Hoover, AL'']
         [''Birmingham-Hoover, AL Metro Area'', ''Birmingham, AL Metro Area''] ''Birmingham-Hoover, AL''
       = Some ''Birmingham, AL Metro Area''"
proof -
  have t: "map_of hardcodedMappings ''Birmingham-Hoover, AL'' = Some ''Birmingham, AL Metro Area''"
    by code_simp
  have s: "scoreOf ''Birmingham-Hoover, AL'' ''Birmingham-Hoover, AL Metro Area'' = 80"
    "scoreOf ''Birmingham-Hoover, AL'' ''Birmingham, AL Metro Area'' = 65"
    by code_simp+
  from createMetroNameMapping_override_first [of "''Birmingham-Hoover, AL''" "''Birmingham, AL Metro Area''" "[''Birmingham-Hoover, AL'']"
      "[''Birmingham-Hoover, AL Metro Area'', ''Birmingham, AL Metro Area'']"] t s
  show ?thesis by simp
qed


end
